theory Spec2Isabelle
  imports Complex_Main
begin

section \<open>Sculpt smoothing (sculpt\_smooth.c): data model\<close>

text \<open>
  The C code computes on \<^verbatim>\<open>float\<close>. The embedding computes on \<^typ>\<open>real\<close>: every
  arithmetic operation is the exact one, without rounding, infinities or NaN. Control
  flow (which branch returns which value) is modelled as written.
\<close>

type_synonym vec3 = "real \<times> real \<times> real"
type_synonym vec4 = "real \<times> real \<times> real \<times> real"

text \<open>A vertex handle (\<^verbatim>\<open>SculptIdx\<close>) indexes externally owned arrays.\<close>

type_synonym SculptIdx = nat

subsection \<open>Vector helpers of BLI\_math\<close>

text \<open>
  Modelled from the spec: the BLI\_math vector helpers, \<^verbatim>\<open>CLAMP\<close> and \<^verbatim>\<open>clamp_f\<close> are
  declared outside the files at hand. They are the componentwise operations their names
  say; an output parameter becomes the returned value.
\<close>

definition zero_v3 :: vec3 where
  "zero_v3 = (0, 0, 0)"

fun add_v3_v3 :: "vec3 \<Rightarrow> vec3 \<Rightarrow> vec3" where
  "add_v3_v3 (r0, r1, r2) (a0, a1, a2) = (r0 + a0, r1 + a1, r2 + a2)"

fun add_v3_v3v3 :: "vec3 \<Rightarrow> vec3 \<Rightarrow> vec3" where
  "add_v3_v3v3 (a0, a1, a2) (b0, b1, b2) = (a0 + b0, a1 + b1, a2 + b2)"

fun sub_v3_v3 :: "vec3 \<Rightarrow> vec3 \<Rightarrow> vec3" where
  "sub_v3_v3 (r0, r1, r2) (a0, a1, a2) = (r0 - a0, r1 - a1, r2 - a2)"

fun sub_v3_v3v3 :: "vec3 \<Rightarrow> vec3 \<Rightarrow> vec3" where
  "sub_v3_v3v3 (a0, a1, a2) (b0, b1, b2) = (a0 - b0, a1 - b1, a2 - b2)"

fun mul_v3_v3fl :: "vec3 \<Rightarrow> real \<Rightarrow> vec3" where
  "mul_v3_v3fl (a0, a1, a2) f = (a0 * f, a1 * f, a2 * f)"

fun mul_v3_fl :: "vec3 \<Rightarrow> real \<Rightarrow> vec3" where
  "mul_v3_fl (r0, r1, r2) f = (r0 * f, r1 * f, r2 * f)"

fun madd_v3_v3fl :: "vec3 \<Rightarrow> vec3 \<Rightarrow> real \<Rightarrow> vec3" where
  "madd_v3_v3fl (r0, r1, r2) (a0, a1, a2) f = (r0 + a0 * f, r1 + a1 * f, r2 + a2 * f)"

fun madd_v3_v3v3fl :: "vec3 \<Rightarrow> vec3 \<Rightarrow> real \<Rightarrow> vec3" where
  "madd_v3_v3v3fl (a0, a1, a2) (b0, b1, b2) f = (a0 + b0 * f, a1 + b1 * f, a2 + b2 * f)"

fun dot_v3v3 :: "vec3 \<Rightarrow> vec3 \<Rightarrow> real" where
  "dot_v3v3 (a0, a1, a2) (b0, b1, b2) = a0 * b0 + a1 * b1 + a2 * b2"

definition normalize_v3 :: "vec3 \<Rightarrow> vec3" where
  "normalize_v3 a = mul_v3_v3fl a (1 / sqrt (dot_v3v3 a a))"

fun add_v4_v4 :: "vec4 \<Rightarrow> vec4 \<Rightarrow> vec4" where
  "add_v4_v4 (r0, r1, r2, r3) (a0, a1, a2, a3) = (r0 + a0, r1 + a1, r2 + a2, r3 + a3)"

fun mul_v4_v4fl :: "vec4 \<Rightarrow> real \<Rightarrow> vec4" where
  "mul_v4_v4fl (a0, a1, a2, a3) f = (a0 * f, a1 * f, a2 * f, a3 * f)"

text \<open>\<^verbatim>\<open>CLAMP(a, b, c)\<close>: \<^verbatim>\<open>if (a < b) a = b; else if (a > c) a = c;\<close>\<close>

definition CLAMP :: "real \<Rightarrow> real \<Rightarrow> real \<Rightarrow> real" where
  "CLAMP a b c = (if a < b then b else if a > c then c else a)"

definition clamp_f :: "real \<Rightarrow> real \<Rightarrow> real \<Rightarrow> real" where
  "clamp_f v lo hi = (if v < lo then lo else if v > hi then hi else v)"

text \<open>The C cast \<^verbatim>\<open>(int)x\<close> of a float truncates toward zero.\<close>

definition int_of_float :: "real \<Rightarrow> int" where
  "int_of_float x = (if 0 \<le> x then \<lfloor>x\<rfloor> else \<lceil>x\<rceil>)"

subsection \<open>The sculpt session\<close>

datatype PBVHType = PBVH_FACES | PBVH_GRIDS | PBVH_BMESH | PBVH_TRIMESH

text \<open>
  The part of \<^verbatim>\<open>SculptSession\<close> the smoothing code reads and writes. The accessors
  \<^verbatim>\<open>SCULPT_vertex_co_get\<close>, \<^verbatim>\<open>SCULPT_vertex_color_get\<close>, \<^verbatim>\<open>SCULPT_vertex_is_boundary\<close>
  and the neighbour iterator \<^verbatim>\<open>SCULPT_VERTEX_NEIGHBORS_ITER_BEGIN\<close> are declared outside
  the files at hand and are taken as the fields \<open>co\<close>, \<open>vcolor\<close>, \<open>is_boundary\<close> and
  \<open>neighbors\<close> (the neighbours in the iterator's order). The mask layer \<open>vmask\<close> may be
  absent (\<^verbatim>\<open>vd.mask\<close> is then null). \<open>pmap\<close> tells whether the per-vertex face map
  is there; \<open>has_mvert\<close> whether the vertex iterator yields an \<^verbatim>\<open>MVert\<close>, and
  \<open>pbvh_update\<close> holds the vertices whose \<^verbatim>\<open>ME_VERT_PBVH_UPDATE\<close> flag is set.
\<close>

record SculptSession =
  co :: "SculptIdx \<Rightarrow> vec3"
  vmask :: "(SculptIdx \<Rightarrow> real) option"
  vcolor :: "SculptIdx \<Rightarrow> vec4"
  neighbors :: "SculptIdx \<Rightarrow> SculptIdx list"
  is_boundary :: "SculptIdx \<Rightarrow> bool"
  pbvh_type :: PBVHType
  pmap :: bool
  has_mvert :: bool
  pbvh_update :: "SculptIdx set"

definition SCULPT_vertex_co_get :: "SculptSession \<Rightarrow> SculptIdx \<Rightarrow> vec3" where
  "SCULPT_vertex_co_get ss index = co ss index"

text \<open>
  Modelled from the spec: \<^verbatim>\<open>SCULPT_vertex_mask_get\<close> is declared outside the files at
  hand (\<open>vertex_mask(vertex) -> float|absent\<close>); it reads the mask layer, and yields 0
  when the layer is absent.
\<close>

definition SCULPT_vertex_mask_get :: "SculptSession \<Rightarrow> SculptIdx \<Rightarrow> real" where
  "SCULPT_vertex_mask_get ss index = (case vmask ss of None \<Rightarrow> 0 | Some m \<Rightarrow> m index)"

definition SCULPT_vertex_color_get :: "SculptSession \<Rightarrow> SculptIdx \<Rightarrow> vec4" where
  "SCULPT_vertex_color_get ss index = vcolor ss index"

definition SCULPT_vertex_is_boundary :: "SculptSession \<Rightarrow> SculptIdx \<Rightarrow> bool" where
  "SCULPT_vertex_is_boundary ss index = is_boundary ss index"

section \<open>Averaging primitives\<close>

text \<open>
  The neighbour loop of \<^verbatim>\<open>SCULPT_neighbor_coords_average_interior\<close>, one step per
  neighbour, on the locals \<open>(avg, tot, neighbor_count)\<close> (\<open>tot\<close> is the C variable \<^verbatim>\<open>total\<close>).
\<close>

fun interior_loop ::
  "SculptSession \<Rightarrow> bool \<Rightarrow> SculptIdx list \<Rightarrow> vec3 \<times> int \<times> int \<Rightarrow> vec3 \<times> int \<times> int" where
  "interior_loop ss bnd [] acc = acc"
| "interior_loop ss bnd (ni # nis) (avg, tot, neighbor_count) =
     (if bnd then
        (if SCULPT_vertex_is_boundary ss ni
         then interior_loop ss bnd nis
                (add_v3_v3 avg (SCULPT_vertex_co_get ss ni), tot + 1, neighbor_count + 1)
         else interior_loop ss bnd nis (avg, tot, neighbor_count + 1))
      else interior_loop ss bnd nis
             (add_v3_v3 avg (SCULPT_vertex_co_get ss ni), tot + 1, neighbor_count + 1))"

definition SCULPT_neighbor_coords_average_interior :: "SculptSession \<Rightarrow> SculptIdx \<Rightarrow> vec3" where
  "SCULPT_neighbor_coords_average_interior ss index =
     (case interior_loop ss (SCULPT_vertex_is_boundary ss index) (neighbors ss index)
             ((0, 0, 0), 0, 0) of
        (avg, tot, neighbor_count) \<Rightarrow>
          if neighbor_count \<le> 2 then SCULPT_vertex_co_get ss index
          else if tot = 0 then SCULPT_vertex_co_get ss index
          else mul_v3_v3fl avg (1 / real_of_int tot))"

fun coords_loop :: "SculptSession \<Rightarrow> SculptIdx list \<Rightarrow> vec3 \<times> int \<Rightarrow> vec3 \<times> int" where
  "coords_loop ss [] acc = acc"
| "coords_loop ss (ni # nis) (avg, tot) =
     coords_loop ss nis (add_v3_v3 avg (SCULPT_vertex_co_get ss ni), tot + 1)"

definition SCULPT_neighbor_coords_average :: "SculptSession \<Rightarrow> SculptIdx \<Rightarrow> vec3" where
  "SCULPT_neighbor_coords_average ss index =
     (case coords_loop ss (neighbors ss index) ((0, 0, 0), 0) of
        (avg, tot) \<Rightarrow>
          if tot > 0 then mul_v3_v3fl avg (1 / real_of_int tot)
          else SCULPT_vertex_co_get ss index)"

fun mask_loop :: "SculptSession \<Rightarrow> SculptIdx list \<Rightarrow> real \<times> int \<Rightarrow> real \<times> int" where
  "mask_loop ss [] acc = acc"
| "mask_loop ss (ni # nis) (avg, tot) =
     mask_loop ss nis (avg + SCULPT_vertex_mask_get ss ni, tot + 1)"

definition SCULPT_neighbor_mask_average :: "SculptSession \<Rightarrow> SculptIdx \<Rightarrow> real" where
  "SCULPT_neighbor_mask_average ss index =
     (case mask_loop ss (neighbors ss index) (0, 0) of
        (avg, tot) \<Rightarrow>
          if tot > 0 then avg / real_of_int tot
          else SCULPT_vertex_mask_get ss index)"

fun color_loop :: "SculptSession \<Rightarrow> SculptIdx list \<Rightarrow> vec4 \<times> int \<Rightarrow> vec4 \<times> int" where
  "color_loop ss [] acc = acc"
| "color_loop ss (ni # nis) (avg, tot) =
     color_loop ss nis (add_v4_v4 avg (SCULPT_vertex_color_get ss ni), tot + 1)"

definition SCULPT_neighbor_color_average :: "SculptSession \<Rightarrow> SculptIdx \<Rightarrow> vec4" where
  "SCULPT_neighbor_color_average ss index =
     (case color_loop ss (neighbors ss index) ((0, 0, 0, 0), 0) of
        (avg, tot) \<Rightarrow>
          if tot > 0 then mul_v4_v4fl avg (1 / real_of_int tot)
          else SCULPT_vertex_color_get ss index)"

section \<open>Directional (four-neighbour) average\<close>

text \<open>
  \<^verbatim>\<open>BMVert\<close>, \<^verbatim>\<open>BMEdge\<close> and the dynamic mesh that owns them. A pointer to a vertex is
  its key in \<open>bm_verts\<close>; \<open>bm_edges_of_vert\<close> lists the edges that the iterator
  \<^verbatim>\<open>BM_ITER_ELEM (e, &eiter, v, BM_EDGES_OF_VERT)\<close> yields, in its order. The predicate
  \<^verbatim>\<open>BM_edge_is_boundary\<close> is declared outside the files at hand and is the field
  \<open>e_boundary\<close>.
\<close>

record BMVert =
  v_co :: vec3
  v_no :: vec3

record BMEdge =
  e_v1 :: nat
  e_v2 :: nat
  e_boundary :: bool

record BMesh =
  bm_verts :: "nat \<Rightarrow> BMVert"
  bm_edges_of_vert :: "nat \<Rightarrow> BMEdge list"

text \<open>
  The weight of one edge, lines 127--137 of the loop body: the edge vector is projected
  on the tangent plane of the vertex, normalised, and
  \<^verbatim>\<open>fac = dot(vec, direction); fac = fac * fac - 0.5f; fac *= fac;\<close>
  This is the weight in exact arithmetic. The value the code computes in \<^verbatim>\<open>float\<close>
  differs from it by rounding, and where the exact weight is 0 the rounded one need not
  be; no property below depends on the value of a weight.
\<close>

definition four_neighbor_fac :: "vec3 \<Rightarrow> vec3 \<Rightarrow> vec3 \<Rightarrow> vec3 \<Rightarrow> real" where
  "four_neighbor_fac direction vco vno other_co =
     (let vec = sub_v3_v3v3 other_co vco;
          vec = madd_v3_v3fl vec vno (- dot_v3v3 vec vno);
          vec = normalize_v3 vec;
          fac = dot_v3v3 vec direction;
          fac = fac * fac - 0.5;
          fac = fac * fac
      in fac)"

text \<open>
  The edge loop on the locals \<open>(avg_co, tot_co)\<close>. \<open>Inl\<close> is the early return at a
  boundary edge, with the value written to \<^verbatim>\<open>avg\<close>; \<open>Inr\<close> is the normal exit.
\<close>

fun bmesh_edge_loop ::
  "BMesh \<Rightarrow> vec3 \<Rightarrow> nat \<Rightarrow> BMEdge list \<Rightarrow> vec3 \<times> real \<Rightarrow> vec3 + vec3 \<times> real" where
  "bmesh_edge_loop bm direction v [] acc = Inr acc"
| "bmesh_edge_loop bm direction v (e # es) (avg_co, tot_co) =
     (if e_boundary e then Inl (v_co (bm_verts bm v))
      else
        (let v_other = (if e_v1 e = v then e_v2 e else e_v1 e);
             fac = four_neighbor_fac direction (v_co (bm_verts bm v)) (v_no (bm_verts bm v))
                     (v_co (bm_verts bm v_other))
         in bmesh_edge_loop bm direction v es
              (madd_v3_v3fl avg_co (v_co (bm_verts bm v_other)) fac, tot_co + fac)))"

text \<open>The code after the loop, shared in shape by both variants.\<close>

definition four_neighbor_finish :: "vec3 \<Rightarrow> vec3 \<Rightarrow> vec3 \<times> real \<Rightarrow> vec3" where
  "four_neighbor_finish vco vno acc =
     (case acc of (avg_co, tot_co) \<Rightarrow>
        if tot_co > 0 then
          (let avg = mul_v3_v3fl avg_co (1 / tot_co);
               avg = sub_v3_v3 avg vco;
               vec = mul_v3_v3fl vno (dot_v3v3 avg vno);
               avg = sub_v3_v3 avg vec;
               avg = add_v3_v3 avg vco
           in avg)
        else zero_v3)"

definition SCULPT_bmesh_four_neighbor_average :: "BMesh \<Rightarrow> vec3 \<Rightarrow> nat \<Rightarrow> vec3" where
  "SCULPT_bmesh_four_neighbor_average bm direction v =
     (case bmesh_edge_loop bm direction v (bm_edges_of_vert bm v) ((0, 0, 0), 0) of
        Inl avg \<Rightarrow> avg
      | Inr acc \<Rightarrow> four_neighbor_finish (v_co (bm_verts bm v)) (v_no (bm_verts bm v)) acc)"

text \<open>
  \<^verbatim>\<open>TMVert\<close> carries its own edge array (\<^verbatim>\<open>v->edges.items\<close>, here the keys of the edges
  in \<open>tm_edges\<close>); \<^verbatim>\<open>TM_edge_is_boundary\<close> is the field \<open>te_boundary\<close>.
\<close>

record TMVert =
  tv_co :: vec3
  tv_no :: vec3
  tv_edges :: "nat list"

record TMEdge =
  te_v1 :: nat
  te_v2 :: nat
  te_boundary :: bool

record TriMesh =
  tm_verts :: "nat \<Rightarrow> TMVert"
  tm_edges :: "nat \<Rightarrow> TMEdge"

fun trimesh_edge_loop ::
  "TriMesh \<Rightarrow> vec3 \<Rightarrow> nat \<Rightarrow> nat list \<Rightarrow> vec3 \<times> real \<Rightarrow> vec3 + vec3 \<times> real" where
  "trimesh_edge_loop tm direction v [] acc = Inr acc"
| "trimesh_edge_loop tm direction v (i # is) (avg_co, tot_co) =
     (let e = tm_edges tm i in
      if te_boundary e then Inl (tv_co (tm_verts tm v))
      else
        (let v_other = (if te_v1 e = v then te_v2 e else te_v1 e);
             fac = four_neighbor_fac direction (tv_co (tm_verts tm v)) (tv_no (tm_verts tm v))
                     (tv_co (tm_verts tm v_other))
         in trimesh_edge_loop tm direction v is
              (madd_v3_v3fl avg_co (tv_co (tm_verts tm v_other)) fac, tot_co + fac)))"

definition SCULPT_trimesh_four_neighbor_average :: "TriMesh \<Rightarrow> vec3 \<Rightarrow> nat \<Rightarrow> vec3" where
  "SCULPT_trimesh_four_neighbor_average tm direction v =
     (case trimesh_edge_loop tm direction v (tv_edges (tm_verts tm v)) ((0, 0, 0), 0) of
        Inl avg \<Rightarrow> avg
      | Inr acc \<Rightarrow> four_neighbor_finish (tv_co (tm_verts tm v)) (tv_no (tm_verts tm v)) acc)"

section \<open>The smoothing kernel and its orchestrator\<close>

text \<open>
  What a call reports besides the session it leaves behind: the assertion of
  \<^verbatim>\<open>SCULPT_smooth\<close>, or the dereference of a null \<^verbatim>\<open>vd.mask\<close> in mask mode.
\<close>

datatype error = Assert_pmap_missing | Null_mask_deref

type_synonym result = "error option \<times> SculptSession"

text \<open>
  The brush, as far as the kernels use it. \<open>brush_test_sq\<close> is
  \<^verbatim>\<open>sculpt_brush_test_sq_fn(&test, co)\<close>: \<open>None\<close> when the test fails, \<open>Some dist_sq\<close> with
  the value it leaves in \<^verbatim>\<open>test.dist\<close> when it passes. \<open>brush_strength_factor\<close> is
  \<^verbatim>\<open>SCULPT_brush_strength_factor\<close> on the session, the position, the length, the mask
  argument and the vertex index (the brush, the normals and the thread id are fixed by
  the index and the call). \<open>clip\<close> is \<^verbatim>\<open>SCULPT_clip(sd, ss, co, val)\<close>: the position it
  leaves in \<^verbatim>\<open>co\<close>. All three are declared outside the files at hand.
\<close>

record BrushCtx =
  brush_test_sq :: "vec3 \<Rightarrow> real option"
  brush_strength_factor :: "SculptSession \<Rightarrow> vec3 \<Rightarrow> real \<Rightarrow> real \<Rightarrow> SculptIdx \<Rightarrow> real"
  clip :: "vec3 \<Rightarrow> vec3 \<Rightarrow> vec3"

text \<open>\<^verbatim>\<open>if (vd.mvert) vd.mvert->flag |= ME_VERT_PBVH_UPDATE;\<close>\<close>

definition tag_update :: "SculptIdx \<Rightarrow> SculptSession \<Rightarrow> SculptSession" where
  "tag_update v ss =
     (if has_mvert ss then ss\<lparr>pbvh_update := insert v (pbvh_update ss)\<rparr> else ss)"

text \<open>
  The body of the vertex loop of \<^verbatim>\<open>do_smooth_brush_task_cb_ex\<close> (the variant compiled
  without \<^verbatim>\<open>PROXY_ADVANCED\<close>), at the vertex \<open>v\<close> with the clamped \<open>bstrength\<close>.
\<close>

definition smooth_vertex ::
  "BrushCtx \<Rightarrow> bool \<Rightarrow> real \<Rightarrow> SculptSession \<Rightarrow> SculptIdx \<Rightarrow> result" where
  "smooth_vertex bc smooth_mask bstrength ss v =
     (case brush_test_sq bc (co ss v) of
        None \<Rightarrow> (None, ss)
      | Some dist_sq \<Rightarrow>
          (let fade = bstrength *
                 brush_strength_factor bc ss (co ss v) (sqrt dist_sq)
                   (if smooth_mask then 0 else (case vmask ss of None \<Rightarrow> 0 | Some m \<Rightarrow> m v)) v
           in if smooth_mask then
                (case vmask ss of
                   None \<Rightarrow> (Some Null_mask_deref, ss)
                 | Some m \<Rightarrow>
                     (let val = SCULPT_neighbor_mask_average ss v - m v;
                          val = val * (fade * bstrength);
                          new_mask = m v + val
                      in (None, tag_update v (ss\<lparr>vmask := Some (m(v := CLAMP new_mask 0 1))\<rparr>))))
              else
                (let avg = SCULPT_neighbor_coords_average_interior ss v;
                     val = sub_v3_v3v3 avg (co ss v);
                     val = madd_v3_v3v3fl (co ss v) val fade
                 in (None, tag_update v (ss\<lparr>co := (co ss)(v := clip bc (co ss v) val)\<rparr>)))))"

text \<open>
  A loop over a list of work items that stops at the first item that reports an error.
  It stands for \<^verbatim>\<open>BKE_pbvh_vertex_iter_begin\<close> over the unique vertices of a node and for
  \<^verbatim>\<open>BLI_task_parallel_range\<close> over the nodes, run in list order.
\<close>

fun iter_until_error :: "(SculptSession \<Rightarrow> 'a \<Rightarrow> result) \<Rightarrow> 'a list \<Rightarrow> SculptSession \<Rightarrow> result" where
  "iter_until_error f [] ss = (None, ss)"
| "iter_until_error f (x # xs) ss =
     (case f ss x of
        (Some e, ss') \<Rightarrow> (Some e, ss')
      | (None, ss') \<Rightarrow> iter_until_error f xs ss')"

text \<open>A node is the list of its unique vertices.\<close>

type_synonym PBVHNode = "SculptIdx list"

definition do_smooth_brush_task_cb_ex ::
  "BrushCtx \<Rightarrow> bool \<Rightarrow> real \<Rightarrow> SculptSession \<Rightarrow> PBVHNode \<Rightarrow> result" where
  "do_smooth_brush_task_cb_ex bc smooth_mask strength ss node =
     (let bstrength = CLAMP strength 0 1
      in iter_until_error (smooth_vertex bc smooth_mask bstrength) node ss)"

definition max_iterations :: int where
  "max_iterations = 4"

definition fract :: real where
  "fract = 1 / real_of_int max_iterations"

text \<open>
  \<^verbatim>\<open>count = (int)(bstrength * max_iterations);\<close> and
  \<^verbatim>\<open>last = max_iterations * (bstrength - count * fract);\<close> on the clamped strength.
\<close>

definition smooth_count :: "real \<Rightarrow> int" where
  "smooth_count bstrength = int_of_float (CLAMP bstrength 0 1 * real_of_int max_iterations)"

definition smooth_last :: "real \<Rightarrow> real" where
  "smooth_last bstrength =
     real_of_int max_iterations *
       (CLAMP bstrength 0 1 - real_of_int (smooth_count bstrength) * fract)"

text \<open>
  The strength of each pass of
  \<^verbatim>\<open>for (iteration = 0; iteration <= count; iteration++)\<close>, in order:
  \<^verbatim>\<open>strength = (iteration != count) ? 1.0f : last\<close>.
\<close>

definition smooth_strengths :: "real \<Rightarrow> real list" where
  "smooth_strengths bstrength =
     map (\<lambda>iteration. if iteration \<noteq> smooth_count bstrength then 1 else smooth_last bstrength)
         [0..smooth_count bstrength]"

text \<open>
  \<^verbatim>\<open>SCULPT_smooth\<close>. The calls \<^verbatim>\<open>SCULPT_vertex_random_access_ensure\<close> and
  \<^verbatim>\<open>SCULPT_boundary_info_ensure\<close> prepare the lookups behind the accessors and change none
  of the fields of the session; each pass dispatches the kernel over all nodes.
\<close>

definition SCULPT_smooth ::
  "BrushCtx \<Rightarrow> SculptSession \<Rightarrow> PBVHNode list \<Rightarrow> real \<Rightarrow> bool \<Rightarrow> result" where
  "SCULPT_smooth bc ss nodes bstrength smooth_mask =
     (if pbvh_type ss = PBVH_FACES \<and> \<not> pmap ss then (Some Assert_pmap_missing, ss)
      else iter_until_error
             (\<lambda>ss' strength.
                iter_until_error (do_smooth_brush_task_cb_ex bc smooth_mask strength) nodes ss')
             (smooth_strengths bstrength) ss)"

section \<open>Surface (HC) smoothing\<close>

text \<open>
  \<^verbatim>\<open>SCULPT_surface_smooth_laplacian_step\<close> writes \<^verbatim>\<open>disp\<close> and
  \<^verbatim>\<open>laplacian_disp[v_index]\<close>; the model returns both.
\<close>

definition SCULPT_surface_smooth_laplacian_step ::
  "SculptSession \<Rightarrow> vec3 \<Rightarrow> (SculptIdx \<Rightarrow> vec3) \<Rightarrow> SculptIdx \<Rightarrow> vec3 \<Rightarrow> real
     \<Rightarrow> vec3 \<times> (SculptIdx \<Rightarrow> vec3)" where
  "SCULPT_surface_smooth_laplacian_step ss vco laplacian_disp v_index origco alpha =
     (let laplacian_smooth_co = SCULPT_neighbor_coords_average ss v_index;
          weigthed_o = mul_v3_v3fl origco alpha;
          weigthed_q = mul_v3_v3fl vco (1 - alpha);
          d = add_v3_v3v3 weigthed_o weigthed_q
      in (sub_v3_v3v3 laplacian_smooth_co vco,
          laplacian_disp(v_index := sub_v3_v3v3 laplacian_smooth_co d)))"

text \<open>The target \<^verbatim>\<open>d\<close> of the step above.\<close>

definition laplacian_target :: "vec3 \<Rightarrow> vec3 \<Rightarrow> real \<Rightarrow> vec3" where
  "laplacian_target vco origco alpha =
     add_v3_v3v3 (mul_v3_v3fl origco alpha) (mul_v3_v3fl vco (1 - alpha))"

fun displace_loop ::
  "(SculptIdx \<Rightarrow> vec3) \<Rightarrow> SculptIdx list \<Rightarrow> vec3 \<times> int \<Rightarrow> vec3 \<times> int" where
  "displace_loop laplacian_disp [] acc = acc"
| "displace_loop laplacian_disp (ni # nis) (b_avg, tot) =
     displace_loop laplacian_disp nis (add_v3_v3 b_avg (laplacian_disp ni), tot + 1)"

text \<open>\<^verbatim>\<open>SCULPT_surface_smooth_displace_step\<close> updates \<^verbatim>\<open>co\<close> in place; the model returns it.\<close>

definition SCULPT_surface_smooth_displace_step ::
  "SculptSession \<Rightarrow> vec3 \<Rightarrow> (SculptIdx \<Rightarrow> vec3) \<Rightarrow> SculptIdx \<Rightarrow> real \<Rightarrow> real \<Rightarrow> vec3" where
  "SCULPT_surface_smooth_displace_step ss vco laplacian_disp v_index beta fade =
     (case displace_loop laplacian_disp (neighbors ss v_index) ((0, 0, 0), 0) of
        (b_avg, tot) \<Rightarrow>
          if tot > 0 then
            (let b_current_vertex = mul_v3_v3fl b_avg ((1 - beta) / real_of_int tot);
                 b_current_vertex = madd_v3_v3fl b_current_vertex (laplacian_disp v_index) beta;
                 b_current_vertex = mul_v3_fl b_current_vertex (clamp_f fade 0 1)
             in sub_v3_v3 vco b_current_vertex)
          else vco)"

text \<open>
  The state of a surface-smoothing stroke: the session and the buffer
  \<^verbatim>\<open>ss->cache->surface_smooth_laplacian_disp\<close>. \<open>orig_co\<close> is the position
  \<^verbatim>\<open>SCULPT_orig_vert_data_update\<close> yields for a vertex (its position before the stroke),
  \<open>cache_bstrength\<close> is \<^verbatim>\<open>ss->cache->bstrength\<close>.
\<close>

type_synonym surface_state = "SculptSession \<times> (SculptIdx \<Rightarrow> vec3)"

definition surface_laplacian_vertex ::
  "BrushCtx \<Rightarrow> real \<Rightarrow> real \<Rightarrow> (SculptIdx \<Rightarrow> vec3) \<Rightarrow> surface_state \<Rightarrow> SculptIdx
     \<Rightarrow> surface_state" where
  "surface_laplacian_vertex bc cache_bstrength alpha orig_co st v =
     (case st of (ss, laplacian_disp) \<Rightarrow>
        (case brush_test_sq bc (co ss v) of
           None \<Rightarrow> (ss, laplacian_disp)
         | Some dist_sq \<Rightarrow>
             (let fade = cache_bstrength *
                    brush_strength_factor bc ss (co ss v) (sqrt dist_sq)
                      (case vmask ss of None \<Rightarrow> 0 | Some m \<Rightarrow> m v) v
              in (case SCULPT_surface_smooth_laplacian_step ss (co ss v) laplacian_disp v
                         (orig_co v) alpha of
                    (disp, laplacian_disp') \<Rightarrow>
                      (tag_update v
                         (ss\<lparr>co := (co ss)(v := madd_v3_v3fl (co ss v) disp (clamp_f fade 0 1))\<rparr>),
                       laplacian_disp')))))"

definition SCULPT_do_surface_smooth_brush_laplacian_task_cb_ex ::
  "BrushCtx \<Rightarrow> real \<Rightarrow> real \<Rightarrow> (SculptIdx \<Rightarrow> vec3) \<Rightarrow> surface_state \<Rightarrow> PBVHNode
     \<Rightarrow> surface_state" where
  "SCULPT_do_surface_smooth_brush_laplacian_task_cb_ex bc cache_bstrength alpha orig_co st node =
     foldl (surface_laplacian_vertex bc cache_bstrength alpha orig_co) st node"

definition surface_displace_vertex ::
  "BrushCtx \<Rightarrow> real \<Rightarrow> real \<Rightarrow> surface_state \<Rightarrow> SculptIdx \<Rightarrow> surface_state" where
  "surface_displace_vertex bc cache_bstrength beta st v =
     (case st of (ss, laplacian_disp) \<Rightarrow>
        (case brush_test_sq bc (co ss v) of
           None \<Rightarrow> (ss, laplacian_disp)
         | Some dist_sq \<Rightarrow>
             (let fade = cache_bstrength *
                    brush_strength_factor bc ss (co ss v) (sqrt dist_sq)
                      (case vmask ss of None \<Rightarrow> 0 | Some m \<Rightarrow> m v) v
              in (ss\<lparr>co := (co ss)(v := SCULPT_surface_smooth_displace_step ss (co ss v)
                                           laplacian_disp v beta fade)\<rparr>,
                  laplacian_disp))))"

definition SCULPT_do_surface_smooth_brush_displace_task_cb_ex ::
  "BrushCtx \<Rightarrow> real \<Rightarrow> real \<Rightarrow> surface_state \<Rightarrow> PBVHNode \<Rightarrow> surface_state" where
  "SCULPT_do_surface_smooth_brush_displace_task_cb_ex bc cache_bstrength beta st node =
     foldl (surface_displace_vertex bc cache_bstrength beta) st node"

section \<open>Notions of the specification\<close>

text \<open>The invariant on masks: the session has a mask layer and every mask lies in \<open>[0, 1]\<close>.\<close>

definition masks_in_unit :: "SculptSession \<Rightarrow> bool" where
  "masks_in_unit ss = (\<exists>m. vmask ss = Some m \<and> (\<forall>v. 0 \<le> m v \<and> m v \<le> 1))"

text \<open>The sum of a list of vectors, component by component.\<close>

definition sum_v3 :: "vec3 list \<Rightarrow> vec3" where
  "sum_v3 vs = (sum_list (map fst vs), sum_list (map (fst \<circ> snd) vs), sum_list (map (snd \<circ> snd) vs))"

section \<open>Invariants of a pass of strength 0\<close>

text \<open>
  What a pass of strength 0 keeps of the session \<open>ss\<close> it started from. The positions,
  the presence of \<^verbatim>\<open>MVert\<close>s and, outside mask mode, the masks are those of \<open>ss\<close>;
  update flags are only added; with a mask layer \<open>m\<close>, every mask is \<open>m v\<close> or
  \<open>CLAMP (m v) 0 1\<close>.
\<close>

definition zero_pass_inv :: "bool \<Rightarrow> SculptSession \<Rightarrow> SculptSession \<Rightarrow> bool" where
  "zero_pass_inv smooth_mask ss s =
     (co s = co ss \<and> has_mvert s = has_mvert ss \<and> pbvh_update ss \<subseteq> pbvh_update s \<and>
      (\<not> smooth_mask \<longrightarrow> vmask s = vmask ss) \<and>
      (vmask ss = None \<longrightarrow> vmask s = None) \<and>
      (\<forall>m. vmask ss = Some m \<longrightarrow>
         (\<exists>m'. vmask s = Some m' \<and> (\<forall>v. m' v = m v \<or> m' v = CLAMP (m v) 0 1))))"

text \<open>
  The vertex \<open>v\<close> has had its turn in a pass of strength 0 that started from \<open>ss\<close>: in
  mask mode its mask is the clamped one, and it carries the update flag if it has an
  \<^verbatim>\<open>MVert\<close>.
\<close>

definition zero_pass_done :: "bool \<Rightarrow> SculptSession \<Rightarrow> SculptIdx \<Rightarrow> SculptSession \<Rightarrow> bool" where
  "zero_pass_done smooth_mask ss v s =
     ((smooth_mask \<longrightarrow>
         (\<forall>m. vmask ss = Some m \<longrightarrow> (\<exists>m'. vmask s = Some m' \<and> m' v = CLAMP (m v) 0 1))) \<and>
      (has_mvert ss \<longrightarrow> v \<in> pbvh_update s))"

text \<open>The mask of the vertex \<open>v\<close> is the one it has in \<open>ss\<close>.\<close>

definition zero_pass_untouched :: "SculptSession \<Rightarrow> SculptIdx \<Rightarrow> SculptSession \<Rightarrow> bool" where
  "zero_pass_untouched ss v s =
     (\<forall>m. vmask ss = Some m \<longrightarrow> (\<exists>m'. vmask s = Some m' \<and> m' v = m v))"

section \<open>Concrete sessions\<close>

text \<open>
  Five vertices. Vertex 0 is isolated; vertex 1 is a boundary vertex whose three
  neighbours are all interior; vertices 2 and 4 have two neighbours, vertex 3 has three.
\<close>

definition star_session :: SculptSession where
  "star_session =
     \<lparr>co = (\<lambda>i. (real i, 2 * real i, 1)),
      vmask = Some (\<lambda>i. 1 / 2),
      vcolor = (\<lambda>i. (1, real i, 0, 1)),
      neighbors = (\<lambda>i. if i = 1 then [2, 3, 4] else if i = 2 then [1, 3]
                        else if i = 3 then [1, 2, 4] else if i = 4 then [1, 3] else []),
      is_boundary = (\<lambda>i. i = 1),
      pbvh_type = PBVH_FACES,
      pmap = True,
      has_mvert = True,
      pbvh_update = {}\<rparr>"

text \<open>
  A dynamic mesh and a triangle mesh with the same five vertices, all with normal
  \<open>(0, 0, 1)\<close>. Vertex 0 has no edge; vertex 1 has one interior edge, to vertex 2;
  vertex 3 has an interior edge followed by a boundary edge.
\<close>

definition edge_bmesh :: BMesh where
  "edge_bmesh =
     \<lparr>bm_verts = (\<lambda>k. if k = 0 then \<lparr>v_co = (1, 2, 3), v_no = (0, 0, 1)\<rparr>
                      else if k = 1 then \<lparr>v_co = (1, 0, 0), v_no = (0, 0, 1)\<rparr>
                      else if k = 2 then \<lparr>v_co = (2, 1, 0), v_no = (0, 0, 1)\<rparr>
                      else if k = 3 then \<lparr>v_co = (5, 5, 0), v_no = (0, 0, 1)\<rparr>
                      else \<lparr>v_co = (6, 5, 0), v_no = (0, 0, 1)\<rparr>),
      bm_edges_of_vert = (\<lambda>k. if k = 1 then [\<lparr>e_v1 = 1, e_v2 = 2, e_boundary = False\<rparr>]
                              else if k = 3 then [\<lparr>e_v1 = 2, e_v2 = 3, e_boundary = False\<rparr>,
                                                  \<lparr>e_v1 = 3, e_v2 = 4, e_boundary = True\<rparr>]
                              else [])\<rparr>"

definition edge_trimesh :: TriMesh where
  "edge_trimesh =
     \<lparr>tm_verts = (\<lambda>k. if k = 0 then \<lparr>tv_co = (1, 2, 3), tv_no = (0, 0, 1), tv_edges = []\<rparr>
                      else if k = 1 then \<lparr>tv_co = (1, 0, 0), tv_no = (0, 0, 1), tv_edges = [0]\<rparr>
                      else if k = 2 then \<lparr>tv_co = (2, 1, 0), tv_no = (0, 0, 1), tv_edges = []\<rparr>
                      else if k = 3 then \<lparr>tv_co = (5, 5, 0), tv_no = (0, 0, 1), tv_edges = [1, 2]\<rparr>
                      else \<lparr>tv_co = (6, 5, 0), tv_no = (0, 0, 1), tv_edges = []\<rparr>),
      tm_edges = (\<lambda>i. if i = 0 then \<lparr>te_v1 = 1, te_v2 = 2, te_boundary = False\<rparr>
                      else if i = 1 then \<lparr>te_v1 = 2, te_v2 = 3, te_boundary = False\<rparr>
                      else \<lparr>te_v1 = 3, te_v2 = 4, te_boundary = True\<rparr>)\<rparr>"

text \<open>
  A brush whose test passes within the ball \<open>|co|\<^sup>2 \<le> 50\<close>, with strength factor
  \<open>1 / 2\<close> everywhere and a clip that keeps the first coordinate of the vertex and
  writes the other two.
\<close>

definition ball_brush :: BrushCtx where
  "ball_brush =
     \<lparr>brush_test_sq = (\<lambda>c. if dot_v3v3 c c \<le> 50 then Some (dot_v3v3 c c) else None),
      brush_strength_factor = (\<lambda>ss c len m i. 1 / 2),
      clip = (\<lambda>c val. (fst c, snd val))\<rparr>"

text \<open>The session \<open>star_session\<close> with the mask 2 at every vertex.\<close>

definition overmasked_session :: SculptSession where
  "overmasked_session = star_session\<lparr>vmask := Some (\<lambda>i. 2)\<rparr>"

text \<open>
  The session \<open>star_session\<close> with the masks \<open>-1, 1 / 4, 1 / 2, 1, 2\<close> at the vertices
  \<open>0, \<dots>, 4\<close>. Vertices 0 and 4 are outside \<open>[0, 1]\<close>; vertex 4 is not under
  \<open>ball_brush\<close>.
\<close>

definition graded_session :: SculptSession where
  "graded_session =
     star_session\<lparr>vmask := Some (\<lambda>i. if i = 0 then - 1 else if i = 3 then 1
                                       else if i = 4 then 2 else real i / 4)\<rparr>"

text \<open>
  A session for the displacement step: vertex 3 of \<open>star_session\<close> has the neighbours
  1, 2 and 4; the buffer holds \<open>(i, 0, 1)\<close> at vertex \<open>i\<close>.
\<close>

definition ramp_disp :: "SculptIdx \<Rightarrow> vec3" where
  "ramp_disp i = (real i, 0, 1)"

section \<open>Properties of the averaging primitives\<close>

text \<open>
  The neighbour loop of the interior average counts in \<open>tot\<close> the neighbours that
  contribute (all of them at an interior vertex, the boundary ones at a boundary vertex)
  and in \<open>neighbor_count\<close> all neighbours.
\<close>

lemma interior_loop_counts:
  "fst (snd (interior_loop ss bnd ns acc)) =
     fst (snd acc) + int (length (filter (\<lambda>ni. \<not> bnd \<or> is_boundary ss ni) ns)) \<and>
   snd (snd (interior_loop ss bnd ns acc)) = snd (snd acc) + int (length ns)"
proof (induction ns arbitrary: acc)
  case Nil
  show ?case by simp
next
  case (Cons ni nis)
  obtain avg tot cnt where acc: "acc = (avg, tot, cnt)"
    by (cases acc rule: prod_cases3)
  show ?case
    using Cons.IH by (cases bnd) (simp_all add: acc SCULPT_vertex_is_boundary_def)
qed

text \<open>
  C2. At a vertex with no neighbours the position, mask and colour averages and the
  boundary-aware interior average return the vertex's own value; the interior average
  does so as well whenever its boundary filtering leaves no contributing neighbour. No
  division takes place on these paths.
\<close>

theorem zero_neighbors_identity:
  "(neighbors ss index = [] \<longrightarrow>
      SCULPT_neighbor_coords_average ss index = co ss index \<and>
      SCULPT_neighbor_mask_average ss index = SCULPT_vertex_mask_get ss index \<and>
      SCULPT_neighbor_color_average ss index = vcolor ss index \<and>
      SCULPT_neighbor_coords_average_interior ss index = co ss index) \<and>
   (filter (\<lambda>ni. \<not> is_boundary ss index \<or> is_boundary ss ni) (neighbors ss index) = [] \<longrightarrow>
      SCULPT_neighbor_coords_average_interior ss index = co ss index)"
proof (intro conjI impI)
  assume nil: "neighbors ss index = []"
  show "SCULPT_neighbor_coords_average ss index = co ss index"
    by (simp add: SCULPT_neighbor_coords_average_def nil SCULPT_vertex_co_get_def)
  show "SCULPT_neighbor_mask_average ss index = SCULPT_vertex_mask_get ss index"
    by (simp add: SCULPT_neighbor_mask_average_def nil)
  show "SCULPT_neighbor_color_average ss index = vcolor ss index"
    by (simp add: SCULPT_neighbor_color_average_def nil SCULPT_vertex_color_get_def)
  show "SCULPT_neighbor_coords_average_interior ss index = co ss index"
    by (simp add: SCULPT_neighbor_coords_average_interior_def nil SCULPT_vertex_co_get_def)
next
  assume flt: "filter (\<lambda>ni. \<not> is_boundary ss index \<or> is_boundary ss ni) (neighbors ss index) = []"
  obtain avg tot cnt where
    loop: "interior_loop ss (SCULPT_vertex_is_boundary ss index) (neighbors ss index)
             ((0, 0, 0), 0, 0) = (avg, tot, cnt)"
    by (cases "interior_loop ss (SCULPT_vertex_is_boundary ss index) (neighbors ss index)
             ((0, 0, 0), 0, 0)") auto
  from interior_loop_counts [of ss "SCULPT_vertex_is_boundary ss index" "neighbors ss index"
      "((0, 0, 0), 0, 0)"] flt loop have "tot = 0"
    by (simp add: SCULPT_vertex_is_boundary_def)
  with loop show "SCULPT_neighbor_coords_average_interior ss index = co ss index"
    by (simp add: SCULPT_neighbor_coords_average_interior_def SCULPT_vertex_co_get_def)
qed

theorem zero_neighbors_identity_witness:
  "neighbors star_session 0 = [] \<and>
   SCULPT_neighbor_coords_average star_session 0 = (0, 0, 1) \<and>
   SCULPT_neighbor_mask_average star_session 0 = 1 / 2 \<and>
   SCULPT_neighbor_color_average star_session 0 = (1, 0, 0, 1) \<and>
   filter (\<lambda>ni. \<not> is_boundary star_session 1 \<or> is_boundary star_session ni)
     (neighbors star_session 1) = [] \<and>
   neighbors star_session 1 = [2, 3, 4] \<and>
   SCULPT_neighbor_coords_average_interior star_session 1 = (1, 2, 1)"
  using zero_neighbors_identity [of star_session 0] zero_neighbors_identity [of star_session 1]
  by (simp add: star_session_def SCULPT_vertex_mask_get_def)

text \<open>
  C3. At a vertex with two or fewer neighbours the boundary-aware interior average
  returns the vertex's own position, whatever the boundary flags of the vertex and of
  its neighbours are.
\<close>

theorem corner_preservation:
  assumes "length (neighbors ss index) \<le> 2"
  shows "SCULPT_neighbor_coords_average_interior ss index = co ss index"
proof -
  obtain avg tot cnt where
    loop: "interior_loop ss (SCULPT_vertex_is_boundary ss index) (neighbors ss index)
             ((0, 0, 0), 0, 0) = (avg, tot, cnt)"
    by (cases "interior_loop ss (SCULPT_vertex_is_boundary ss index) (neighbors ss index)
             ((0, 0, 0), 0, 0)") auto
  from interior_loop_counts [of ss "SCULPT_vertex_is_boundary ss index" "neighbors ss index"
      "((0, 0, 0), 0, 0)"] assms loop have "cnt \<le> 2"
    by simp
  with loop show ?thesis
    by (simp add: SCULPT_neighbor_coords_average_interior_def SCULPT_vertex_co_get_def)
qed

theorem corner_preservation_witness:
  "length (neighbors star_session 2) \<le> 2 \<and> neighbors star_session 2 = [1, 3] \<and>
   is_boundary star_session 1 \<and> \<not> is_boundary star_session 2 \<and>
   SCULPT_neighbor_coords_average_interior star_session 2 = (2, 4, 1)"
  using corner_preservation [of star_session 2]
  by (simp add: star_session_def)

section \<open>Properties of the directional average\<close>

text \<open>The edge loop returns early with the vertex's position at the first boundary edge.\<close>

lemma bmesh_edge_loop_boundary:
  "\<exists>e \<in> set es. e_boundary e \<Longrightarrow>
     bmesh_edge_loop bm direction v es acc = Inl (v_co (bm_verts bm v))"
proof (induction es arbitrary: acc)
  case Nil
  then show ?case by simp
next
  case (Cons e es)
  obtain avg_co tot_co where acc: "acc = (avg_co, tot_co)"
    by (cases acc)
  show ?case
  proof (cases "e_boundary e")
    case True
    then show ?thesis by (simp add: acc)
  next
    case False
    with Cons.prems have "\<exists>e \<in> set es. e_boundary e" by auto
    with Cons.IH False show ?thesis by (simp add: acc Let_def)
  qed
qed

lemma trimesh_edge_loop_boundary:
  "\<exists>i \<in> set es. te_boundary (tm_edges tm i) \<Longrightarrow>
     trimesh_edge_loop tm direction v es acc = Inl (tv_co (tm_verts tm v))"
proof (induction es arbitrary: acc)
  case Nil
  then show ?case by simp
next
  case (Cons i es)
  obtain avg_co tot_co where acc: "acc = (avg_co, tot_co)"
    by (cases acc)
  show ?case
  proof (cases "te_boundary (tm_edges tm i)")
    case True
    then show ?thesis by (simp add: acc)
  next
    case False
    with Cons.prems have "\<exists>i \<in> set es. te_boundary (tm_edges tm i)" by auto
    with Cons.IH False show ?thesis by (simp add: acc Let_def)
  qed
qed

text \<open>
  C4. At a vertex with at least one incident boundary edge, the directional
  four-neighbour average returns the vertex's own position, in the bmesh and in the
  trimesh variant.
\<close>

theorem boundary_short_circuit:
  "((\<exists>e \<in> set (bm_edges_of_vert bm v). e_boundary e) \<longrightarrow>
      SCULPT_bmesh_four_neighbor_average bm direction v = v_co (bm_verts bm v)) \<and>
   ((\<exists>i \<in> set (tv_edges (tm_verts tm w)). te_boundary (tm_edges tm i)) \<longrightarrow>
      SCULPT_trimesh_four_neighbor_average tm direction w = tv_co (tm_verts tm w))"
  by (simp add: SCULPT_bmesh_four_neighbor_average_def SCULPT_trimesh_four_neighbor_average_def
      bmesh_edge_loop_boundary trimesh_edge_loop_boundary)

theorem boundary_short_circuit_witness:
  "(\<exists>e \<in> set (bm_edges_of_vert edge_bmesh 3). e_boundary e) \<and>
   \<not> e_boundary (hd (bm_edges_of_vert edge_bmesh 3)) \<and>
   SCULPT_bmesh_four_neighbor_average edge_bmesh (1, 0, 0) 3 = (5, 5, 0) \<and>
   (\<exists>i \<in> set (tv_edges (tm_verts edge_trimesh 3)). te_boundary (tm_edges edge_trimesh i)) \<and>
   \<not> te_boundary (tm_edges edge_trimesh (hd (tv_edges (tm_verts edge_trimesh 3)))) \<and>
   SCULPT_trimesh_four_neighbor_average edge_trimesh (1, 0, 0) 3 = (5, 5, 0)"
  using boundary_short_circuit [of edge_bmesh 3 "(1, 0, 0)" edge_trimesh 3]
  by (simp add: edge_bmesh_def edge_trimesh_def)

text \<open>
  C5 as stated fails: at a vertex with no incident edge the loop accumulates the total
  weight 0 and both variants return the zero vector, not the vertex's position
  \<open>(1, 2, 3)\<close>.
\<close>

theorem zero_weight_counterexample:
  "bm_edges_of_vert edge_bmesh 0 = [] \<and>
   bmesh_edge_loop edge_bmesh (1, 0, 0) 0 (bm_edges_of_vert edge_bmesh 0) ((0, 0, 0), 0) =
     Inr ((0, 0, 0), 0) \<and>
   v_co (bm_verts edge_bmesh 0) = (1, 2, 3) \<and>
   SCULPT_bmesh_four_neighbor_average edge_bmesh (1, 0, 0) 0 = (0, 0, 0) \<and>
   SCULPT_bmesh_four_neighbor_average edge_bmesh (1, 0, 0) 0 \<noteq> v_co (bm_verts edge_bmesh 0) \<and>
   tv_edges (tm_verts edge_trimesh 0) = [] \<and>
   trimesh_edge_loop edge_trimesh (1, 0, 0) 0 (tv_edges (tm_verts edge_trimesh 0))
     ((0, 0, 0), 0) = Inr ((0, 0, 0), 0) \<and>
   tv_co (tm_verts edge_trimesh 0) = (1, 2, 3) \<and>
   SCULPT_trimesh_four_neighbor_average edge_trimesh (1, 0, 0) 0 = (0, 0, 0) \<and>
   SCULPT_trimesh_four_neighbor_average edge_trimesh (1, 0, 0) 0 \<noteq> tv_co (tm_verts edge_trimesh 0)"
  by (simp add: SCULPT_bmesh_four_neighbor_average_def SCULPT_trimesh_four_neighbor_average_def
      four_neighbor_finish_def zero_v3_def edge_bmesh_def edge_trimesh_def)

text \<open>
  C5, amended. At a vertex with no incident edge the edge loop ends with the total
  weight \<open>tot_co = 0\<close>, and the directional four-neighbour average, in the bmesh and in
  the trimesh variant, returns the zero vector \<open>(0, 0, 0)\<close>; it reports no error. The
  statement does not depend on the weight of any edge.
\<close>

theorem no_edges_zero_vector:
  "(bm_edges_of_vert bm v = [] \<longrightarrow>
      bmesh_edge_loop bm direction v (bm_edges_of_vert bm v) ((0, 0, 0), 0) =
        Inr ((0, 0, 0), 0) \<and>
      SCULPT_bmesh_four_neighbor_average bm direction v = (0, 0, 0)) \<and>
   (tv_edges (tm_verts tm w) = [] \<longrightarrow>
      trimesh_edge_loop tm direction w (tv_edges (tm_verts tm w)) ((0, 0, 0), 0) =
        Inr ((0, 0, 0), 0) \<and>
      SCULPT_trimesh_four_neighbor_average tm direction w = (0, 0, 0))"
  by (simp add: SCULPT_bmesh_four_neighbor_average_def SCULPT_trimesh_four_neighbor_average_def
      four_neighbor_finish_def zero_v3_def)

theorem no_edges_zero_vector_witness:
  "bm_edges_of_vert edge_bmesh 2 = [] \<and>
   v_co (bm_verts edge_bmesh 2) = (2, 1, 0) \<and>
   SCULPT_bmesh_four_neighbor_average edge_bmesh (0, 1, 0) 2 = (0, 0, 0) \<and>
   tv_edges (tm_verts edge_trimesh 4) = [] \<and>
   tv_co (tm_verts edge_trimesh 4) = (6, 5, 0) \<and>
   SCULPT_trimesh_four_neighbor_average edge_trimesh (0, 1, 0) 4 = (0, 0, 0)"
  using no_edges_zero_vector [of edge_bmesh 2 "(0, 1, 0)" edge_trimesh 4]
  by (simp add: edge_bmesh_def edge_trimesh_def)

section \<open>Properties of the orchestrator\<close>

text \<open>The clamped strength lies in \<open>[0, 1]\<close>, so the cast to \<^verbatim>\<open>int\<close> is the floor.\<close>

lemma CLAMP_unit: "0 \<le> CLAMP a 0 1 \<and> CLAMP a 0 1 \<le> 1"
  by (simp add: CLAMP_def)

lemma smooth_count_floor: "smooth_count s = \<lfloor>4 * CLAMP s 0 1\<rfloor>"
  using CLAMP_unit [of s]
  by (simp add: smooth_count_def int_of_float_def max_iterations_def mult.commute)

lemma smooth_count_nonneg: "0 \<le> smooth_count s"
  using CLAMP_unit [of s] by (simp add: smooth_count_floor)

lemma smooth_last_frac: "smooth_last s = 4 * CLAMP s 0 1 - real_of_int \<lfloor>4 * CLAMP s 0 1\<rfloor>"
  by (simp add: smooth_last_def smooth_count_floor fract_def max_iterations_def algebra_simps)

text \<open>The passes \<open>0, \<dots>, c\<close> are \<open>c\<close> passes of strength 1 followed by one of strength \<open>l\<close>.\<close>

lemma strengths_list:
  "0 \<le> c \<Longrightarrow>
     map (\<lambda>iteration. if iteration \<noteq> c then 1 else l) [0..c] = replicate (nat c) (1::real) @ [l]"
proof -
  assume c: "0 \<le> c"
  have "[0..c] = [0..c - 1] @ [c]"
    using c by (simp add: upto_rec2)
  moreover have "map (\<lambda>iteration. if iteration \<noteq> c then 1 else l) [0..c - 1] =
      map (\<lambda>iteration. 1::real) [0..c - 1]"
    by (rule map_cong) auto
  moreover have "map (\<lambda>iteration. 1::real) [0..c - 1] = replicate (length [0..c - 1]) 1"
    by (rule map_replicate_const)
  moreover have "length [0..c - 1] = nat c"
    using c by simp
  ultimately show ?thesis by simp
qed

text \<open>
  C1. For every strength \<open>s\<close>, with \<open>CLAMP s 0 1\<close> the strength clamped to \<open>[0, 1]\<close>:
  \<open>count\<close> is the floor of four times the clamped strength and \<open>last\<close> is
  \<open>4 * (s - count / 4)\<close>; the passes \<open>0, \<dots>, count\<close> get the strength 1, except the
  pass \<open>count\<close>, which gets \<open>last\<close>; the strengths sum to \<open>count * 1 + last\<close>; \<open>last\<close>
  lies in \<open>[0, 1)\<close>; at \<open>s = 1\<close> \<open>count = 4\<close> and \<open>last = 0\<close>, at \<open>s = 1 / 4\<close>
  \<open>count = 1\<close> and \<open>last = 0\<close>. Unless the assertion on the face map stops it,
  \<^verbatim>\<open>SCULPT_smooth\<close> dispatches the kernel over the nodes once per pass, with these
  strengths in this order.
\<close>

theorem iteration_count_law:
  "smooth_count s = \<lfloor>4 * CLAMP s 0 1\<rfloor> \<and>
   smooth_last s = 4 * (CLAMP s 0 1 - real_of_int (smooth_count s) / 4) \<and>
   smooth_strengths s = replicate (nat (smooth_count s)) 1 @ [smooth_last s] \<and>
   sum_list (smooth_strengths s) = real_of_int (smooth_count s) * 1 + smooth_last s \<and>
   0 \<le> smooth_last s \<and> smooth_last s < 1 \<and>
   smooth_count 1 = 4 \<and> smooth_last 1 = 0 \<and>
   smooth_count (1 / 4) = 1 \<and> smooth_last (1 / 4) = 0 \<and>
   (\<not> (pbvh_type ss = PBVH_FACES \<and> \<not> pmap ss) \<longrightarrow>
      SCULPT_smooth bc ss nodes s smooth_mask =
        iter_until_error
          (\<lambda>ss' strength.
             iter_until_error (do_smooth_brush_task_cb_ex bc smooth_mask strength) nodes ss')
          (replicate (nat (smooth_count s)) 1 @ [smooth_last s]) ss)"
proof -
  have str: "smooth_strengths s = replicate (nat (smooth_count s)) 1 @ [smooth_last s]"
    unfolding smooth_strengths_def by (rule strengths_list [OF smooth_count_nonneg])
  have sum: "sum_list (smooth_strengths s) = real_of_int (smooth_count s) * 1 + smooth_last s"
    using smooth_count_nonneg [of s] by (simp add: str sum_list_replicate)
  have lo: "0 \<le> smooth_last s" and hi: "smooth_last s < 1"
    unfolding smooth_last_frac by linarith+
  have last_eq: "smooth_last s = 4 * (CLAMP s 0 1 - real_of_int (smooth_count s) / 4)"
    by (simp add: smooth_last_frac smooth_count_floor)
  have c1: "smooth_count 1 = 4" and c4: "smooth_count (1 / 4) = 1"
    by (simp_all add: smooth_count_floor CLAMP_def)
  have l1: "smooth_last 1 = 0" and l4: "smooth_last (1 / 4) = 0"
    by (simp_all add: smooth_last_frac CLAMP_def)
  have run: "\<not> (pbvh_type ss = PBVH_FACES \<and> \<not> pmap ss) \<longrightarrow>
      SCULPT_smooth bc ss nodes s smooth_mask =
        iter_until_error
          (\<lambda>ss' strength.
             iter_until_error (do_smooth_brush_task_cb_ex bc smooth_mask strength) nodes ss')
          (replicate (nat (smooth_count s)) 1 @ [smooth_last s]) ss"
    by (simp add: SCULPT_smooth_def str)
  from smooth_count_floor str sum lo hi last_eq c1 c4 l1 l4 run show ?thesis
    by blast
qed

theorem iteration_count_law_witness:
  "\<not> (pbvh_type star_session = PBVH_FACES \<and> \<not> pmap star_session) \<and>
   smooth_count (3 / 5) = 2 \<and> smooth_last (3 / 5) = 2 / 5 \<and>
   SCULPT_smooth ball_brush star_session [[0, 1], [3]] (3 / 5) False =
     iter_until_error
       (\<lambda>ss' strength.
          iter_until_error (do_smooth_brush_task_cb_ex ball_brush False strength) [[0, 1], [3]] ss')
       [1, 1, 2 / 5] star_session"
proof -
  have c: "smooth_count (3 / 5) = 2"
    by (simp add: smooth_count_floor CLAMP_def)
  have l: "smooth_last (3 / 5) = 2 / 5"
    by (simp add: smooth_last_frac CLAMP_def)
  have p: "\<not> (pbvh_type star_session = PBVH_FACES \<and> \<not> pmap star_session)"
    by (simp add: star_session_def)
  from iteration_count_law [of "3 / 5" star_session ball_brush "[[0, 1], [3]]" False] p
  show ?thesis
    by (simp add: c l numeral_2_eq_2)
qed

text \<open>
  A property of the session that every work item preserves holds of the session the
  loop leaves, whether it stops at an error or not.
\<close>

lemma iter_until_error_invariant:
  assumes step: "\<And>s x e s'. P s \<Longrightarrow> f s x = (e, s') \<Longrightarrow> P s'"
    and init: "P s"
  shows "P (snd (iter_until_error f xs s))"
  using init
proof (induction xs arbitrary: s)
  case Nil
  then show ?case by simp
next
  case (Cons x xs)
  obtain e s' where fx: "f s x = (e, s')" by (cases "f s x")
  from step [OF Cons.prems fx] have P': "P s'" .
  show ?case
  proof (cases e)
    case None
    with fx Cons.IH [OF P'] show ?thesis by simp
  next
    case (Some err)
    with fx P' show ?thesis by simp
  qed
qed

lemma madd_v3_v3v3fl_zero: "madd_v3_v3v3fl a b 0 = a"
  by (cases a rule: prod_cases3, cases b rule: prod_cases3) simp

lemma tag_update_fields:
  "co (tag_update v ss) = co ss" "vmask (tag_update v ss) = vmask ss"
  by (simp_all add: tag_update_def)

lemma CLAMP_id: "0 \<le> a \<Longrightarrow> a \<le> 1 \<Longrightarrow> CLAMP a 0 1 = a"
  by (simp add: CLAMP_def)

text \<open>Auxiliary facts on \<^verbatim>\<open>CLAMP\<close> and on the loop that stops at an error.\<close>

lemma CLAMP_idem: "CLAMP (CLAMP a 0 1) 0 1 = CLAMP a 0 1"
  by (simp add: CLAMP_def)

lemma iter_until_error_single: "iter_until_error f [x] s = f s x"
proof -
  obtain e s' where r: "f s x = (e, s')" by (cases "f s x")
  show ?thesis by (cases e) (simp_all add: r)
qed

lemma iter_until_error_no_error:
  assumes noerr: "\<And>s x. J s \<Longrightarrow> fst (f s x) = None"
    and pres: "\<And>s x. J s \<Longrightarrow> J (snd (f s x))"
    and init: "J s"
  shows "fst (iter_until_error f xs s) = None"
  using init
proof (induction xs arbitrary: s)
  case Nil
  show ?case by simp
next
  case (Cons x xs)
  obtain e s' where r: "f s x = (e, s')" by (cases "f s x")
  from noerr [OF Cons.prems, of x] r have e: "e = None" by simp
  from pres [OF Cons.prems, of x] r have "J s'" by simp
  from Cons.IH [OF this] show ?case by (simp add: r e)
qed

lemma iter_until_error_establish:
  assumes noerr: "\<And>s x. J s \<Longrightarrow> fst (f s x) = None"
    and pres: "\<And>s x. J s \<Longrightarrow> J (snd (f s x))"
    and keep: "\<And>s x. J s \<Longrightarrow> Q s \<Longrightarrow> Q (snd (f s x))"
    and est: "\<And>s. J s \<Longrightarrow> Q (snd (f s a))"
    and mem: "a \<in> set xs"
    and init: "J s"
  shows "Q (snd (iter_until_error f xs s))"
  using mem init
proof (induction xs arbitrary: s)
  case Nil
  then show ?case by simp
next
  case (Cons x xs)
  obtain e s' where r: "f s x = (e, s')" by (cases "f s x")
  from noerr [OF Cons.prems(2), of x] r have e: "e = None" by simp
  from pres [OF Cons.prems(2), of x] r have J': "J s'" by simp
  have step: "iter_until_error f (x # xs) s = iter_until_error f xs s'"
    by (simp add: r e)
  show ?case
  proof (cases "x = a")
    case True
    from est [OF Cons.prems(2)] True r have Q': "Q s'" by simp
    have "J (snd (iter_until_error f xs s')) \<and> Q (snd (iter_until_error f xs s'))"
    proof (rule iter_until_error_invariant [where P = "\<lambda>t. J t \<and> Q t"])
      fix t y e' t'
      assume "J t \<and> Q t" and "f t y = (e', t')"
      with pres [of t y] keep [of t y] show "J t' \<and> Q t'" by simp
    next
      from J' Q' show "J s' \<and> Q s'" by simp
    qed
    then show ?thesis unfolding step by simp
  next
    case False
    with Cons.prems(1) have "a \<in> set xs" by simp
    from Cons.IH [OF this J'] show ?thesis unfolding step .
  qed
qed

text \<open>
  One vertex at strength 0: the displacement added to the position and to the mask is 0;
  what is written is the position \<^verbatim>\<open>SCULPT_clip\<close> leaves, or the clamped mask.
\<close>

lemma smooth_vertex_zero:
  "smooth_vertex bc smooth_mask 0 s v =
     (case brush_test_sq bc (co s v) of
        None \<Rightarrow> (None, s)
      | Some dist_sq \<Rightarrow>
          if smooth_mask then
            (case vmask s of
               None \<Rightarrow> (Some Null_mask_deref, s)
             | Some m \<Rightarrow> (None, tag_update v (s\<lparr>vmask := Some (m(v := CLAMP (m v) 0 1))\<rparr>)))
          else (None, tag_update v (s\<lparr>co := (co s)(v := clip bc (co s v) (co s v))\<rparr>)))"
  by (simp add: smooth_vertex_def madd_v3_v3v3fl_zero split: option.splits)

lemma zero_vertex_inv:
  assumes clip: "\<not> smooth_mask \<longrightarrow> (\<forall>v. clip bc (co ss v) (co ss v) = co ss v)"
    and inv: "zero_pass_inv smooth_mask ss s"
  shows "zero_pass_inv smooth_mask ss (snd (smooth_vertex bc smooth_mask 0 s v))"
proof (cases "brush_test_sq bc (co s v)")
  case None
  with inv show ?thesis by (simp add: smooth_vertex_zero)
next
  case (Some d)
  show ?thesis
  proof (cases smooth_mask)
    case False
    from inv have cs: "co s = co ss" by (simp add: zero_pass_inv_def)
    from clip False cs have "(co s)(v := clip bc (co s v) (co s v)) = co s"
      by (simp add: fun_upd_idem_iff)
    with inv Some False show ?thesis
      by (auto simp: smooth_vertex_zero zero_pass_inv_def tag_update_def)
  next
    case True
    show ?thesis
    proof (cases "vmask s")
      case None
      with inv Some True show ?thesis by (simp add: smooth_vertex_zero)
    next
      case (Some m')
      have rel: "\<forall>u. (m'(v := CLAMP (m' v) 0 1)) u = m u \<or>
                     (m'(v := CLAMP (m' v) 0 1)) u = CLAMP (m u) 0 1"
        if "vmask ss = Some m" for m
      proof
        fix u
        from inv that Some have "m' u = m u \<or> m' u = CLAMP (m u) 0 1"
          by (auto simp: zero_pass_inv_def)
        then show "(m'(v := CLAMP (m' v) 0 1)) u = m u \<or>
                   (m'(v := CLAMP (m' v) 0 1)) u = CLAMP (m u) 0 1"
          by (cases "u = v") (auto simp: CLAMP_idem)
      qed
      from inv Some have "vmask ss \<noteq> None" by (auto simp: zero_pass_inv_def)
      with inv \<open>brush_test_sq bc (co s v) = Some d\<close> True Some rel show ?thesis
        by (auto simp: smooth_vertex_zero zero_pass_inv_def tag_update_def)
    qed
  qed
qed

lemma zero_vertex_no_error:
  assumes layer: "smooth_mask \<longrightarrow> vmask ss \<noteq> None"
    and inv: "zero_pass_inv smooth_mask ss s"
  shows "fst (smooth_vertex bc smooth_mask 0 s v) = None"
proof -
  from layer inv have "smooth_mask \<longrightarrow> vmask s \<noteq> None"
    by (auto simp: zero_pass_inv_def)
  then show ?thesis
    by (auto simp: smooth_vertex_zero split: option.splits)
qed

lemma zero_vertex_keep:
  assumes inv: "zero_pass_inv smooth_mask ss s"
    and don: "zero_pass_done smooth_mask ss v s"
  shows "zero_pass_done smooth_mask ss v (snd (smooth_vertex bc smooth_mask 0 s u))"
proof (cases "brush_test_sq bc (co s u)")
  case None
  with don show ?thesis by (simp add: smooth_vertex_zero)
next
  case (Some d)
  show ?thesis
  proof (cases smooth_mask)
    case False
    with don Some show ?thesis
      by (auto simp: smooth_vertex_zero zero_pass_done_def tag_update_def)
  next
    case True
    show ?thesis
    proof (cases "vmask s")
      case None
      with don Some True show ?thesis by (simp add: smooth_vertex_zero)
    next
      case (Some m')
      with don True \<open>brush_test_sq bc (co s u) = Some d\<close> show ?thesis
        by (auto simp: smooth_vertex_zero zero_pass_done_def tag_update_def CLAMP_idem)
    qed
  qed
qed

lemma zero_vertex_establish:
  assumes layer: "smooth_mask \<longrightarrow> vmask ss \<noteq> None"
    and test: "brush_test_sq bc (co ss v) \<noteq> None"
    and inv: "zero_pass_inv smooth_mask ss s"
  shows "zero_pass_done smooth_mask ss v (snd (smooth_vertex bc smooth_mask 0 s v))"
proof -
  from inv have cs: "co s = co ss" and hm: "has_mvert s = has_mvert ss"
    by (simp_all add: zero_pass_inv_def)
  from test cs obtain d where t: "brush_test_sq bc (co s v) = Some d" by auto
  show ?thesis
  proof (cases smooth_mask)
    case False
    with t hm show ?thesis
      by (auto simp: smooth_vertex_zero zero_pass_done_def tag_update_def)
  next
    case True
    from layer True obtain m where m: "vmask ss = Some m" by auto
    with inv obtain m' where m': "vmask s = Some m'"
      and rel: "m' v = m v \<or> m' v = CLAMP (m v) 0 1"
      by (auto simp: zero_pass_inv_def)
    from rel have "CLAMP (m' v) 0 1 = CLAMP (m v) 0 1"
      by (auto simp: CLAMP_idem)
    with t True m m' hm show ?thesis
      by (auto simp: smooth_vertex_zero zero_pass_done_def tag_update_def)
  qed
qed

lemma iter_until_error_invariant_mem:
  assumes step: "\<And>s x e s'. x \<in> set xs \<Longrightarrow> P s \<Longrightarrow> f s x = (e, s') \<Longrightarrow> P s'"
    and init: "P s"
  shows "P (snd (iter_until_error f xs s))"
  using step init
proof (induction xs arbitrary: s)
  case Nil
  then show ?case by simp
next
  case (Cons x xs)
  obtain e s' where fx: "f s x = (e, s')" by (cases "f s x")
  from Cons.prems(1) [of x s e s'] Cons.prems(2) fx have P': "P s'" by simp
  have rest: "P (snd (iter_until_error f xs s'))"
  proof (rule Cons.IH [OF _ P'])
    fix t y e' t'
    assume "y \<in> set xs" and "P t" and "f t y = (e', t')"
    with Cons.prems(1) [of y t e' t'] show "P t'" by simp
  qed
  show ?case
  proof (cases e)
    case None
    with fx rest show ?thesis by simp
  next
    case (Some err)
    with fx P' show ?thesis by simp
  qed
qed

lemma zero_vertex_untouched:
  assumes inv: "zero_pass_inv smooth_mask ss s"
    and unt: "zero_pass_untouched ss v s"
    and other: "u \<noteq> v \<or> brush_test_sq bc (co ss u) = None"
  shows "zero_pass_untouched ss v (snd (smooth_vertex bc smooth_mask 0 s u))"
proof -
  from inv have cs: "co s = co ss" by (simp add: zero_pass_inv_def)
  show ?thesis
  proof (cases "brush_test_sq bc (co s u)")
    case None
    with unt show ?thesis by (simp add: smooth_vertex_zero)
  next
    case (Some d)
    with other cs have uv: "u \<noteq> v" by auto
    show ?thesis
    proof (cases smooth_mask)
      case False
      with unt Some show ?thesis
        by (auto simp: smooth_vertex_zero zero_pass_untouched_def tag_update_def)
    next
      case True
      show ?thesis
      proof (cases "vmask s")
        case None
        with unt \<open>brush_test_sq bc (co s u) = Some d\<close> True show ?thesis
          by (simp add: smooth_vertex_zero)
      next
        case (Some m')
        with unt uv True \<open>brush_test_sq bc (co s u) = Some d\<close> show ?thesis
          by (auto simp: smooth_vertex_zero zero_pass_untouched_def tag_update_def)
      qed
    qed
  qed
qed

text \<open>
  The node loop and the dispatch over the nodes at strength 0: they keep the invariant,
  report no error when mask mode finds a mask layer, give every vertex of a node that is
  under the brush its turn, and leave the mask of every other vertex alone.
\<close>

lemma zero_kernel: 
  "do_smooth_brush_task_cb_ex bc smooth_mask 0 s node =
     iter_until_error (smooth_vertex bc smooth_mask 0) node s"
  by (simp add: do_smooth_brush_task_cb_ex_def CLAMP_def)

lemma zero_node_inv:
  assumes clip: "\<not> smooth_mask \<longrightarrow> (\<forall>v. clip bc (co ss v) (co ss v) = co ss v)"
    and inv: "zero_pass_inv smooth_mask ss s"
  shows "zero_pass_inv smooth_mask ss (snd (do_smooth_brush_task_cb_ex bc smooth_mask 0 s node))"
  unfolding zero_kernel
proof (rule iter_until_error_invariant [where P = "zero_pass_inv smooth_mask ss"])
  fix t v e t'
  assume t: "zero_pass_inv smooth_mask ss t" and r: "smooth_vertex bc smooth_mask 0 t v = (e, t')"
  from zero_vertex_inv [OF clip t, of v] r show "zero_pass_inv smooth_mask ss t'" by simp
next
  show "zero_pass_inv smooth_mask ss s" by (rule inv)
qed

lemma zero_node_no_error:
  assumes clip: "\<not> smooth_mask \<longrightarrow> (\<forall>v. clip bc (co ss v) (co ss v) = co ss v)"
    and layer: "smooth_mask \<longrightarrow> vmask ss \<noteq> None"
    and inv: "zero_pass_inv smooth_mask ss s"
  shows "fst (do_smooth_brush_task_cb_ex bc smooth_mask 0 s node) = None"
  unfolding zero_kernel
proof (rule iter_until_error_no_error [where J = "zero_pass_inv smooth_mask ss"])
  fix t u
  assume t: "zero_pass_inv smooth_mask ss t"
  show "fst (smooth_vertex bc smooth_mask 0 t u) = None"
    by (rule zero_vertex_no_error [OF layer t])
  show "zero_pass_inv smooth_mask ss (snd (smooth_vertex bc smooth_mask 0 t u))"
    by (rule zero_vertex_inv [OF clip t])
next
  show "zero_pass_inv smooth_mask ss s" by (rule inv)
qed

lemma zero_node_keep:
  assumes clip: "\<not> smooth_mask \<longrightarrow> (\<forall>v. clip bc (co ss v) (co ss v) = co ss v)"
    and inv: "zero_pass_inv smooth_mask ss s"
    and don: "zero_pass_done smooth_mask ss v s"
  shows "zero_pass_done smooth_mask ss v (snd (do_smooth_brush_task_cb_ex bc smooth_mask 0 s node))"
proof -
  have "zero_pass_inv smooth_mask ss (snd (iter_until_error (smooth_vertex bc smooth_mask 0) node s)) \<and>
        zero_pass_done smooth_mask ss v (snd (iter_until_error (smooth_vertex bc smooth_mask 0) node s))"
  proof (rule iter_until_error_invariant
      [where P = "\<lambda>t. zero_pass_inv smooth_mask ss t \<and> zero_pass_done smooth_mask ss v t"])
    fix t u e t'
    assume a: "zero_pass_inv smooth_mask ss t \<and> zero_pass_done smooth_mask ss v t"
      and r: "smooth_vertex bc smooth_mask 0 t u = (e, t')"
    from a have t: "zero_pass_inv smooth_mask ss t" and d: "zero_pass_done smooth_mask ss v t"
      by simp_all
    from zero_vertex_inv [OF clip t, of u] zero_vertex_keep [OF t d, of bc u] r
    show "zero_pass_inv smooth_mask ss t' \<and> zero_pass_done smooth_mask ss v t'" by simp
  next
    from inv don show "zero_pass_inv smooth_mask ss s \<and> zero_pass_done smooth_mask ss v s" by simp
  qed
  then show ?thesis by (simp add: zero_kernel)
qed

lemma zero_node_establish:
  assumes clip: "\<not> smooth_mask \<longrightarrow> (\<forall>v. clip bc (co ss v) (co ss v) = co ss v)"
    and layer: "smooth_mask \<longrightarrow> vmask ss \<noteq> None"
    and test: "brush_test_sq bc (co ss v) \<noteq> None"
    and mem: "v \<in> set node"
    and inv: "zero_pass_inv smooth_mask ss s"
  shows "zero_pass_done smooth_mask ss v (snd (do_smooth_brush_task_cb_ex bc smooth_mask 0 s node))"
  unfolding zero_kernel
proof (rule iter_until_error_establish
    [where J = "zero_pass_inv smooth_mask ss" and a = v, OF _ _ _ _ mem inv])
  fix t u
  assume t: "zero_pass_inv smooth_mask ss t"
  show "fst (smooth_vertex bc smooth_mask 0 t u) = None"
    by (rule zero_vertex_no_error [OF layer t])
  show "zero_pass_inv smooth_mask ss (snd (smooth_vertex bc smooth_mask 0 t u))"
    by (rule zero_vertex_inv [OF clip t])
  show "zero_pass_done smooth_mask ss v (snd (smooth_vertex bc smooth_mask 0 t v))"
    by (rule zero_vertex_establish [OF layer test t])
  assume "zero_pass_done smooth_mask ss v t"
  with t show "zero_pass_done smooth_mask ss v (snd (smooth_vertex bc smooth_mask 0 t u))"
    by (rule zero_vertex_keep)
qed

lemma zero_pass_inv_all:
  assumes clip: "\<not> smooth_mask \<longrightarrow> (\<forall>v. clip bc (co ss v) (co ss v) = co ss v)"
    and inv: "zero_pass_inv smooth_mask ss s"
  shows "zero_pass_inv smooth_mask ss
           (snd (iter_until_error (do_smooth_brush_task_cb_ex bc smooth_mask 0) nodes s))"
proof (rule iter_until_error_invariant [where P = "zero_pass_inv smooth_mask ss"])
  fix t n e t'
  assume t: "zero_pass_inv smooth_mask ss t"
    and r: "do_smooth_brush_task_cb_ex bc smooth_mask 0 t n = (e, t')"
  from zero_node_inv [OF clip t, of n] r show "zero_pass_inv smooth_mask ss t'" by simp
next
  show "zero_pass_inv smooth_mask ss s" by (rule inv)
qed

lemma zero_pass_done_all:
  assumes clip: "\<not> smooth_mask \<longrightarrow> (\<forall>v. clip bc (co ss v) (co ss v) = co ss v)"
    and layer: "smooth_mask \<longrightarrow> vmask ss \<noteq> None"
    and test: "brush_test_sq bc (co ss v) \<noteq> None"
    and mem: "v \<in> set node" and node: "node \<in> set nodes"
    and inv: "zero_pass_inv smooth_mask ss s"
  shows "zero_pass_done smooth_mask ss v
           (snd (iter_until_error (do_smooth_brush_task_cb_ex bc smooth_mask 0) nodes s))"
proof (rule iter_until_error_establish
    [where J = "zero_pass_inv smooth_mask ss" and a = node, OF _ _ _ _ node inv])
  fix t n
  assume t: "zero_pass_inv smooth_mask ss t"
  show "fst (do_smooth_brush_task_cb_ex bc smooth_mask 0 t n) = None"
    by (rule zero_node_no_error [OF clip layer t])
  show "zero_pass_inv smooth_mask ss (snd (do_smooth_brush_task_cb_ex bc smooth_mask 0 t n))"
    by (rule zero_node_inv [OF clip t])
  show "zero_pass_done smooth_mask ss v (snd (do_smooth_brush_task_cb_ex bc smooth_mask 0 t node))"
    by (rule zero_node_establish [OF clip layer test mem t])
  assume d: "zero_pass_done smooth_mask ss v t"
  show "zero_pass_done smooth_mask ss v (snd (do_smooth_brush_task_cb_ex bc smooth_mask 0 t n))"
    by (rule zero_node_keep [OF clip t d])
qed

lemma zero_node_untouched:
  assumes clip: "\<not> smooth_mask \<longrightarrow> (\<forall>v. clip bc (co ss v) (co ss v) = co ss v)"
    and inv: "zero_pass_inv smooth_mask ss s"
    and unt: "zero_pass_untouched ss v s"
    and other: "v \<notin> set node \<or> brush_test_sq bc (co ss v) = None"
  shows "zero_pass_untouched ss v (snd (do_smooth_brush_task_cb_ex bc smooth_mask 0 s node))"
proof -
  have "zero_pass_inv smooth_mask ss (snd (iter_until_error (smooth_vertex bc smooth_mask 0) node s)) \<and>
        zero_pass_untouched ss v (snd (iter_until_error (smooth_vertex bc smooth_mask 0) node s))"
  proof (rule iter_until_error_invariant_mem
      [where P = "\<lambda>t. zero_pass_inv smooth_mask ss t \<and> zero_pass_untouched ss v t"])
    fix t u e t'
    assume u: "u \<in> set node"
      and a: "zero_pass_inv smooth_mask ss t \<and> zero_pass_untouched ss v t"
      and r: "smooth_vertex bc smooth_mask 0 t u = (e, t')"
    from a have t: "zero_pass_inv smooth_mask ss t" and d: "zero_pass_untouched ss v t"
      by simp_all
    from u other have o: "u \<noteq> v \<or> brush_test_sq bc (co ss u) = None" by auto
    from zero_vertex_inv [OF clip t, of u] zero_vertex_untouched [OF t d o] r
    show "zero_pass_inv smooth_mask ss t' \<and> zero_pass_untouched ss v t'" by simp
  next
    from inv unt show "zero_pass_inv smooth_mask ss s \<and> zero_pass_untouched ss v s" by simp
  qed
  then show ?thesis by (simp add: zero_kernel)
qed

lemma zero_pass_untouched_all:
  assumes clip: "\<not> smooth_mask \<longrightarrow> (\<forall>v. clip bc (co ss v) (co ss v) = co ss v)"
    and inv: "zero_pass_inv smooth_mask ss s"
    and unt: "zero_pass_untouched ss v s"
    and other: "\<forall>node \<in> set nodes. v \<notin> set node \<or> brush_test_sq bc (co ss v) = None"
  shows "zero_pass_untouched ss v
           (snd (iter_until_error (do_smooth_brush_task_cb_ex bc smooth_mask 0) nodes s))"
proof -
  have "zero_pass_inv smooth_mask ss
          (snd (iter_until_error (do_smooth_brush_task_cb_ex bc smooth_mask 0) nodes s)) \<and>
        zero_pass_untouched ss v
          (snd (iter_until_error (do_smooth_brush_task_cb_ex bc smooth_mask 0) nodes s))"
  proof (rule iter_until_error_invariant_mem
      [where P = "\<lambda>t. zero_pass_inv smooth_mask ss t \<and> zero_pass_untouched ss v t"])
    fix t n e t'
    assume n: "n \<in> set nodes"
      and a: "zero_pass_inv smooth_mask ss t \<and> zero_pass_untouched ss v t"
      and r: "do_smooth_brush_task_cb_ex bc smooth_mask 0 t n = (e, t')"
    from a have t: "zero_pass_inv smooth_mask ss t" and d: "zero_pass_untouched ss v t"
      by simp_all
    from n other have o: "v \<notin> set n \<or> brush_test_sq bc (co ss v) = None" by auto
    from zero_node_inv [OF clip t, of n] zero_node_untouched [OF clip t d o] r
    show "zero_pass_inv smooth_mask ss t' \<and> zero_pass_untouched ss v t'" by simp
  next
    from inv unt show "zero_pass_inv smooth_mask ss s \<and> zero_pass_untouched ss v s" by simp
  qed
  then show ?thesis by simp
qed

lemma zero_strengths: "smooth_count 0 = 0 \<and> smooth_last 0 = 0 \<and> smooth_strengths 0 = [0]"
proof -
  have cnt: "smooth_count 0 = 0" and lst: "smooth_last 0 = 0"
    by (simp_all add: smooth_count_floor smooth_last_frac CLAMP_def)
  then show ?thesis by (simp add: smooth_strengths_def)
qed

lemma zero_smooth:
  "SCULPT_smooth bc ss nodes 0 smooth_mask =
     (if pbvh_type ss = PBVH_FACES \<and> \<not> pmap ss then (Some Assert_pmap_missing, ss)
      else iter_until_error (do_smooth_brush_task_cb_ex bc smooth_mask 0) nodes ss)"
proof -
  have str: "smooth_strengths 0 = [0]"
    using zero_strengths by simp
  show ?thesis
    unfolding SCULPT_smooth_def str iter_until_error_single by (rule refl)
qed

lemma zero_pass_inv_refl: "zero_pass_inv smooth_mask ss ss"
  by (simp add: zero_pass_inv_def)

text \<open>
  C8 as stated fails. In mask mode the kernel clamps the mask of every vertex under the
  brush after adding the displacement, so at strength 0 a mask of 2 becomes 1; and in
  either mode, with every mask in \<open>[0, 1]\<close>, the call still sets the update flag of the
  vertices under the brush, so the session it leaves is not the one it was given.
\<close>

theorem zero_strength_counterexample:
  "vmask overmasked_session = Some (\<lambda>i. 2) \<and>
   smooth_strengths 0 = [0] \<and>
   SCULPT_smooth ball_brush overmasked_session [[0]] 0 True =
     (None, overmasked_session\<lparr>vmask := Some ((\<lambda>i. 2)(0 := 1)), pbvh_update := {0}\<rparr>) \<and>
   SCULPT_vertex_mask_get overmasked_session 0 = 2 \<and>
   SCULPT_vertex_mask_get (snd (SCULPT_smooth ball_brush overmasked_session [[0]] 0 True)) 0 = 1 \<and>
   vmask star_session = Some (\<lambda>i. 1 / 2) \<and>
   pbvh_update star_session = {} \<and>
   pbvh_update (snd (SCULPT_smooth ball_brush star_session [[0]] 0 False)) = {0} \<and>
   snd (SCULPT_smooth ball_brush star_session [[0]] 0 False) \<noteq> star_session"
proof -
  have str: "smooth_strengths 0 = [0]"
    by (simp add: smooth_strengths_def smooth_count_floor smooth_last_frac CLAMP_def)
  have run: "SCULPT_smooth ball_brush overmasked_session [[0]] 0 True =
     (None, overmasked_session\<lparr>vmask := Some ((\<lambda>i. 2)(0 := 1)), pbvh_update := {0}\<rparr>)"
    by (simp add: SCULPT_smooth_def str do_smooth_brush_task_cb_ex_def smooth_vertex_def
        overmasked_session_def star_session_def ball_brush_def CLAMP_def tag_update_def
        SCULPT_neighbor_mask_average_def SCULPT_vertex_mask_get_def)
  have flag: "pbvh_update (snd (SCULPT_smooth ball_brush star_session [[0]] 0 False)) = {0}"
    by (simp add: SCULPT_smooth_def str do_smooth_brush_task_cb_ex_def smooth_vertex_def
        star_session_def ball_brush_def CLAMP_def tag_update_def)
  have empty: "pbvh_update star_session = {}"
    by (simp add: star_session_def)
  from flag empty have neq: "snd (SCULPT_smooth ball_brush star_session [[0]] 0 False) \<noteq> star_session"
    by auto
  have m: "vmask star_session = Some (\<lambda>i. 1 / 2)"
    by (simp add: star_session_def)
  show ?thesis
    by (simp add: str run flag empty neq m) (simp add: overmasked_session_def SCULPT_vertex_mask_get_def)
qed

text \<open>
  C8, amended. With strength 0, \<open>count = 0\<close> and \<open>last = 0\<close>: one pass of strength 0.
  The call changes no vertex position, provided that in position mode \<^verbatim>\<open>SCULPT_clip\<close>
  keeps a vertex in place when it is handed the vertex's own position. It changes no
  mask value that lies in \<open>[0, 1]\<close>, no mask value in position mode, and no mask value of
  a vertex that is not under the brush in any node; in mask mode, unless the assertion on
  the face map stops the call, the mask of every vertex of a node that is under the brush
  is clamped into \<open>[0, 1]\<close>, so a mask outside \<open>[0, 1]\<close> does change. The call is not
  an identity on the whole session: update flags are only added, and every vertex of a
  node that is under the brush is flagged when vertices have an \<^verbatim>\<open>MVert\<close>, the call is
  not stopped by the assertion and mask mode finds a mask layer; it then reports no error.
\<close>

theorem zero_strength_identity:
  assumes "\<not> smooth_mask \<Longrightarrow> \<forall>v. clip bc (co ss v) (co ss v) = co ss v"
  shows "smooth_count 0 = 0 \<and> smooth_last 0 = 0 \<and> smooth_strengths 0 = [0] \<and>
         co (snd (SCULPT_smooth bc ss nodes 0 smooth_mask)) = co ss \<and>
         (\<not> smooth_mask \<longrightarrow> vmask (snd (SCULPT_smooth bc ss nodes 0 smooth_mask)) = vmask ss) \<and>
         (vmask ss = None \<longrightarrow> vmask (snd (SCULPT_smooth bc ss nodes 0 smooth_mask)) = None) \<and>
         (\<forall>m. vmask ss = Some m \<longrightarrow>
            (\<exists>m'. vmask (snd (SCULPT_smooth bc ss nodes 0 smooth_mask)) = Some m' \<and>
               (\<forall>v. (0 \<le> m v \<and> m v \<le> 1 \<longrightarrow> m' v = m v) \<and>
                    (m' v = m v \<or> m' v = CLAMP (m v) 0 1) \<and>
                    ((\<forall>node \<in> set nodes. v \<notin> set node \<or> brush_test_sq bc (co ss v) = None) \<longrightarrow>
                       m' v = m v)) \<and>
               (smooth_mask \<and> \<not> (pbvh_type ss = PBVH_FACES \<and> \<not> pmap ss) \<longrightarrow>
                  (\<forall>node \<in> set nodes. \<forall>v \<in> set node.
                     brush_test_sq bc (co ss v) \<noteq> None \<longrightarrow>
                       m' v = CLAMP (m v) 0 1 \<and> 0 \<le> m' v \<and> m' v \<le> 1)))) \<and>
         (pbvh_type ss = PBVH_FACES \<and> \<not> pmap ss \<longrightarrow>
            snd (SCULPT_smooth bc ss nodes 0 smooth_mask) = ss) \<and>
         pbvh_update ss \<subseteq> pbvh_update (snd (SCULPT_smooth bc ss nodes 0 smooth_mask)) \<and>
         (has_mvert ss \<and> \<not> (pbvh_type ss = PBVH_FACES \<and> \<not> pmap ss) \<and>
          (smooth_mask \<longrightarrow> vmask ss \<noteq> None) \<longrightarrow>
            fst (SCULPT_smooth bc ss nodes 0 smooth_mask) = None \<and>
            (\<forall>node \<in> set nodes. \<forall>v \<in> set node.
               brush_test_sq bc (co ss v) \<noteq> None \<longrightarrow>
                 v \<in> pbvh_update (snd (SCULPT_smooth bc ss nodes 0 smooth_mask))))"
proof -
  from assms have clip: "\<not> smooth_mask \<longrightarrow> (\<forall>v. clip bc (co ss v) (co ss v) = co ss v)"
    by blast
  let ?R = "SCULPT_smooth bc ss nodes 0 smooth_mask"
  let ?run = "\<not> (pbvh_type ss = PBVH_FACES \<and> \<not> pmap ss)"
  have inv: "zero_pass_inv smooth_mask ss (snd ?R)"
    using zero_pass_inv_all [OF clip zero_pass_inv_refl, where nodes = nodes]
    by (simp add: zero_smooth zero_pass_inv_refl)
  have don: "zero_pass_done smooth_mask ss v (snd ?R)"
    if "?run" and "smooth_mask \<longrightarrow> vmask ss \<noteq> None" and "node \<in> set nodes" and "v \<in> set node"
      and "brush_test_sq bc (co ss v) \<noteq> None" for node v
    using zero_pass_done_all [OF clip that(2) that(5) that(4) that(3) zero_pass_inv_refl] that(1)
    by (auto simp: zero_smooth)
  have noerr: "fst ?R = None" if "?run" and "smooth_mask \<longrightarrow> vmask ss \<noteq> None"
  proof -
    have "fst (iter_until_error (do_smooth_brush_task_cb_ex bc smooth_mask 0) nodes ss) = None"
    proof (rule iter_until_error_no_error [where J = "zero_pass_inv smooth_mask ss"])
      fix t n
      assume t: "zero_pass_inv smooth_mask ss t"
      show "fst (do_smooth_brush_task_cb_ex bc smooth_mask 0 t n) = None"
        by (rule zero_node_no_error [OF clip that(2) t])
      show "zero_pass_inv smooth_mask ss (snd (do_smooth_brush_task_cb_ex bc smooth_mask 0 t n))"
        by (rule zero_node_inv [OF clip t])
    next
      show "zero_pass_inv smooth_mask ss ss" by (rule zero_pass_inv_refl)
    qed
    with that(1) show ?thesis by (simp add: zero_smooth)
  qed
  have pos: "co (snd ?R) = co ss"
    and nomask: "\<not> smooth_mask \<longrightarrow> vmask (snd ?R) = vmask ss"
    and nolayer: "vmask ss = None \<longrightarrow> vmask (snd ?R) = None"
    and flags: "pbvh_update ss \<subseteq> pbvh_update (snd ?R)"
    using inv by (simp_all add: zero_pass_inv_def)
  have masks: "\<exists>m'. vmask (snd ?R) = Some m' \<and>
               (\<forall>v. (0 \<le> m v \<and> m v \<le> 1 \<longrightarrow> m' v = m v) \<and>
                    (m' v = m v \<or> m' v = CLAMP (m v) 0 1) \<and>
                    ((\<forall>node \<in> set nodes. v \<notin> set node \<or> brush_test_sq bc (co ss v) = None) \<longrightarrow>
                       m' v = m v)) \<and>
               (smooth_mask \<and> ?run \<longrightarrow>
                  (\<forall>node \<in> set nodes. \<forall>v \<in> set node.
                     brush_test_sq bc (co ss v) \<noteq> None \<longrightarrow>
                       m' v = CLAMP (m v) 0 1 \<and> 0 \<le> m' v \<and> m' v \<le> 1))"
    if m: "vmask ss = Some m" for m
  proof -
    from inv m obtain m' where m': "vmask (snd ?R) = Some m'"
      and rel: "\<forall>v. m' v = m v \<or> m' v = CLAMP (m v) 0 1"
      by (auto simp: zero_pass_inv_def)
    have kept: "\<forall>v. (0 \<le> m v \<and> m v \<le> 1 \<longrightarrow> m' v = m v) \<and>
                    (m' v = m v \<or> m' v = CLAMP (m v) 0 1) \<and>
                    ((\<forall>node \<in> set nodes. v \<notin> set node \<or> brush_test_sq bc (co ss v) = None) \<longrightarrow>
                       m' v = m v)"
    proof
      fix v
      have "m' v = m v"
        if o: "\<forall>node \<in> set nodes. v \<notin> set node \<or> brush_test_sq bc (co ss v) = None"
      proof -
        have u0: "zero_pass_untouched ss v ss" by (simp add: zero_pass_untouched_def)
        from zero_pass_untouched_all [OF clip zero_pass_inv_refl u0 o] u0
        have "zero_pass_untouched ss v (snd ?R)" by (auto simp: zero_smooth)
        with m m' show ?thesis by (simp add: zero_pass_untouched_def)
      qed
      with rel [rule_format, of v]
      show "(0 \<le> m v \<and> m v \<le> 1 \<longrightarrow> m' v = m v) \<and> (m' v = m v \<or> m' v = CLAMP (m v) 0 1) \<and>
            ((\<forall>node \<in> set nodes. v \<notin> set node \<or> brush_test_sq bc (co ss v) = None) \<longrightarrow>
               m' v = m v)"
        by (auto simp: CLAMP_id)
    qed
    have clamped: "smooth_mask \<and> ?run \<longrightarrow>
        (\<forall>node \<in> set nodes. \<forall>v \<in> set node.
           brush_test_sq bc (co ss v) \<noteq> None \<longrightarrow>
             m' v = CLAMP (m v) 0 1 \<and> 0 \<le> m' v \<and> m' v \<le> 1)"
    proof (intro impI ballI)
      fix node v
      assume h: "smooth_mask \<and> ?run" and n: "node \<in> set nodes" and v: "v \<in> set node"
        and t: "brush_test_sq bc (co ss v) \<noteq> None"
      from m have l: "smooth_mask \<longrightarrow> vmask ss \<noteq> None" by simp
      from h have "?run" by simp
      from don [OF this l n v t] h m m' have "m' v = CLAMP (m v) 0 1"
        by (auto simp: zero_pass_done_def)
      with CLAMP_unit [of "m v"] show "m' v = CLAMP (m v) 0 1 \<and> 0 \<le> m' v \<and> m' v \<le> 1"
        by simp
    qed
    from m' kept clamped show ?thesis by blast
  qed
  have tagged: "has_mvert ss \<and> ?run \<and> (smooth_mask \<longrightarrow> vmask ss \<noteq> None) \<longrightarrow>
      fst ?R = None \<and>
      (\<forall>node \<in> set nodes. \<forall>v \<in> set node.
         brush_test_sq bc (co ss v) \<noteq> None \<longrightarrow> v \<in> pbvh_update (snd ?R))"
  proof (intro impI conjI ballI)
    assume h: "has_mvert ss \<and> ?run \<and> (smooth_mask \<longrightarrow> vmask ss \<noteq> None)"
    then show "fst ?R = None" using noerr by blast
    from h have run: "?run" and l: "smooth_mask \<longrightarrow> vmask ss \<noteq> None" by simp_all
    fix node v
    assume n: "node \<in> set nodes" and v: "v \<in> set node"
      and t: "brush_test_sq bc (co ss v) \<noteq> None"
    from don [OF run l n v t] h show "v \<in> pbvh_update (snd ?R)"
      by (auto simp: zero_pass_done_def)
  qed
  have stopped: "pbvh_type ss = PBVH_FACES \<and> \<not> pmap ss \<longrightarrow> snd ?R = ss"
    by (simp add: zero_smooth)
  from zero_strengths pos nomask nolayer masks stopped flags tagged show ?thesis
    by blast
qed

theorem zero_strength_identity_witness:
  "(\<forall>v. clip ball_brush (co graded_session v) (co graded_session v) = co graded_session v) \<and>
   co (snd (SCULPT_smooth ball_brush graded_session [[0, 1], [3, 4]] 0 False)) = co graded_session \<and>
   vmask (snd (SCULPT_smooth ball_brush graded_session [[0, 1], [3, 4]] 0 False)) =
     vmask graded_session \<and>
   co (snd (SCULPT_smooth ball_brush graded_session [[0, 1], [3, 4]] 0 True)) = co graded_session \<and>
   map (SCULPT_vertex_mask_get graded_session) [0, 1, 2, 3, 4] = [- 1, 1 / 4, 1 / 2, 1, 2] \<and>
   map (SCULPT_vertex_mask_get (snd (SCULPT_smooth ball_brush graded_session [[0, 1], [3, 4]] 0 True)))
     [0, 1, 2, 3, 4] = [0, 1 / 4, 1 / 2, 1, 2] \<and>
   {0, 1, 3} \<subseteq> pbvh_update (snd (SCULPT_smooth ball_brush graded_session [[0, 1], [3, 4]] 0 True)) \<and>
   SCULPT_vertex_mask_get
     (snd (SCULPT_smooth ball_brush graded_session [[0, 1], [3, 4]] (1 / 4) True)) 1 = 17 / 24 \<and>
   co (snd (SCULPT_smooth ball_brush graded_session [[0, 1], [3, 4]] (1 / 4) False)) 3 =
     (3, 16 / 3, 1) \<and>
   co graded_session 3 = (3, 6, 1)"
proof -
  let ?m = "\<lambda>i::nat. if i = 0 then - 1 else if i = 3 then 1 else if i = 4 then 2 else real i / 4"
  have c: "\<forall>v. clip ball_brush (co graded_session v) (co graded_session v) = co graded_session v"
    by (simp add: ball_brush_def)
  have m: "vmask graded_session = Some ?m"
    by (simp add: graded_session_def)
  have run: "\<not> (pbvh_type graded_session = PBVH_FACES \<and> \<not> pmap graded_session)"
    and mv: "has_mvert graded_session"
    by (simp_all add: graded_session_def star_session_def)
  have t: "brush_test_sq ball_brush (co graded_session 0) \<noteq> None"
    "brush_test_sq ball_brush (co graded_session 1) \<noteq> None"
    "brush_test_sq ball_brush (co graded_session 3) \<noteq> None"
    "brush_test_sq ball_brush (co graded_session 4) = None"
    by (simp_all add: graded_session_def star_session_def ball_brush_def)
  have before: "map (SCULPT_vertex_mask_get graded_session) [0, 1, 2, 3, 4] =
      [- 1, 1 / 4, 1 / 2, 1, 2]"
    by (simp add: SCULPT_vertex_mask_get_def m)
  have str: "smooth_strengths (1 / 4) = [1, 0]"
    by (simp add: smooth_strengths_def smooth_count_floor smooth_last_frac CLAMP_def upto.simps)
  have d1: "SCULPT_vertex_mask_get
     (snd (SCULPT_smooth ball_brush graded_session [[0, 1], [3, 4]] (1 / 4) True)) 1 = 17 / 24"
    by (simp add: SCULPT_smooth_def str do_smooth_brush_task_cb_ex_def smooth_vertex_def
        graded_session_def star_session_def ball_brush_def CLAMP_def tag_update_def
        SCULPT_neighbor_mask_average_def SCULPT_vertex_mask_get_def Let_def)
  have d2: "co (snd (SCULPT_smooth ball_brush graded_session [[0, 1], [3, 4]] (1 / 4) False)) 3 =
     (3, 16 / 3, 1)"
    by (simp add: SCULPT_smooth_def str do_smooth_brush_task_cb_ex_def smooth_vertex_def
        graded_session_def star_session_def ball_brush_def CLAMP_def tag_update_def
        SCULPT_neighbor_coords_average_interior_def SCULPT_vertex_is_boundary_def
        SCULPT_vertex_co_get_def Let_def)
  have c3: "co graded_session 3 = (3, 6, 1)"
    by (simp add: graded_session_def star_session_def)
  note pos = zero_strength_identity [of False ball_brush graded_session "[[0, 1], [3, 4]]"]
  note msk = zero_strength_identity [of True ball_brush graded_session "[[0, 1], [3, 4]]"]
  from pos c have p1: "co (snd (SCULPT_smooth ball_brush graded_session [[0, 1], [3, 4]] 0 False)) =
      co graded_session"
    and p2: "vmask (snd (SCULPT_smooth ball_brush graded_session [[0, 1], [3, 4]] 0 False)) =
      vmask graded_session"
    by simp_all
  from msk have q1: "co (snd (SCULPT_smooth ball_brush graded_session [[0, 1], [3, 4]] 0 True)) =
      co graded_session"
    by simp
  from msk m obtain m' where
    vm: "vmask (snd (SCULPT_smooth ball_brush graded_session [[0, 1], [3, 4]] 0 True)) = Some m'"
    and kept: "\<forall>v. (0 \<le> ?m v \<and> ?m v \<le> 1 \<longrightarrow> m' v = ?m v) \<and>
        (m' v = ?m v \<or> m' v = CLAMP (?m v) 0 1) \<and>
        ((\<forall>node \<in> set [[0, 1], [3, 4]]. v \<notin> set node \<or>
            brush_test_sq ball_brush (co graded_session v) = None) \<longrightarrow> m' v = ?m v)"
    and clamped: "\<forall>node \<in> set [[0, 1], [3, 4]]. \<forall>v \<in> set node.
        brush_test_sq ball_brush (co graded_session v) \<noteq> None \<longrightarrow>
          m' v = CLAMP (?m v) 0 1 \<and> 0 \<le> m' v \<and> m' v \<le> 1"
    using run by auto
  from clamped t(1) have m0: "m' 0 = 0" by (simp add: CLAMP_def)
  from kept [rule_format, of 1] have m1: "m' 1 = 1 / 4" by simp
  from kept [rule_format, of 2] have m2: "m' 2 = 1 / 2" by simp
  from kept [rule_format, of 3] have m3: "m' 3 = 1" by simp
  from kept [rule_format, of 4] t(4) have m4: "m' 4 = 2" by simp
  have after: "map (SCULPT_vertex_mask_get
      (snd (SCULPT_smooth ball_brush graded_session [[0, 1], [3, 4]] 0 True))) [0, 1, 2, 3, 4] =
      [0, 1 / 4, 1 / 2, 1, 2]"
    using vm m0 m1 m2 m3 m4 by (simp add: SCULPT_vertex_mask_get_def)
  from msk run mv m t have tags:
    "{0, 1, 3} \<subseteq> pbvh_update (snd (SCULPT_smooth ball_brush graded_session [[0, 1], [3, 4]] 0 True))"
    by simp
  from c p1 p2 q1 before after tags d1 d2 c3 show ?thesis
    by blast
qed

text \<open>
  C9. On a face-based mesh (\<^verbatim>\<open>PBVH_FACES\<close>) without its per-vertex face map,
  \<^verbatim>\<open>SCULPT_smooth\<close> reports the assertion and returns the session as it was: no pass is
  dispatched.
\<close>

theorem pmap_missing_noop:
  assumes "pbvh_type ss = PBVH_FACES" and "\<not> pmap ss"
  shows "SCULPT_smooth bc ss nodes bstrength smooth_mask = (Some Assert_pmap_missing, ss)"
  using assms by (simp add: SCULPT_smooth_def)

theorem pmap_missing_noop_witness:
  "pbvh_type (star_session\<lparr>pmap := False\<rparr>) = PBVH_FACES \<and> \<not> pmap (star_session\<lparr>pmap := False\<rparr>) \<and>
   SCULPT_smooth ball_brush (star_session\<lparr>pmap := False\<rparr>) [[0, 1], [3]] 1 False =
     (Some Assert_pmap_missing, star_session\<lparr>pmap := False\<rparr>)"
  using pmap_missing_noop [of "star_session\<lparr>pmap := False\<rparr>" ball_brush "[[0, 1], [3]]" 1 False]
  by (simp add: star_session_def)

section \<open>Properties of the mask kernel\<close>

text \<open>
  One vertex in mask mode: the position array is kept; with a mask layer the call reports
  no error, only the mask of \<open>v\<close> is written, and the value written lies in \<open>[0, 1]\<close>.
\<close>

lemma smooth_vertex_mask:
  assumes "vmask ss = Some m"
  shows "\<exists>m'. smooth_vertex bc True b ss v = (None, snd (smooth_vertex bc True b ss v)) \<and>
           co (snd (smooth_vertex bc True b ss v)) = co ss \<and>
           vmask (snd (smooth_vertex bc True b ss v)) = Some m' \<and>
           (\<forall>u. u \<noteq> v \<longrightarrow> m' u = m u) \<and>
           (m' v = m v \<or> (0 \<le> m' v \<and> m' v \<le> 1)) \<and>
           (brush_test_sq bc (co ss v) \<noteq> None \<longrightarrow> 0 \<le> m' v \<and> m' v \<le> 1)"
proof (cases "brush_test_sq bc (co ss v)")
  case None
  with assms show ?thesis by (simp add: smooth_vertex_def)
next
  case (Some d)
  with assms show ?thesis
    by (simp add: smooth_vertex_def Let_def tag_update_fields CLAMP_unit)
qed

text \<open>
  The vertex loop in mask mode: positions are kept, so a vertex passes the brush test at
  its turn exactly when it passes it at the start; every mask is either untouched or in
  \<open>[0, 1]\<close>, and the mask of every vertex of the node under the brush is in \<open>[0, 1]\<close>.
\<close>

lemma mask_loop_inv:
  assumes "vmask ss = Some m"
  shows "\<exists>m'. fst (iter_until_error (smooth_vertex bc True b) vs ss) = None \<and>
           co (snd (iter_until_error (smooth_vertex bc True b) vs ss)) = co ss \<and>
           vmask (snd (iter_until_error (smooth_vertex bc True b) vs ss)) = Some m' \<and>
           (\<forall>u. m' u = m u \<or> (0 \<le> m' u \<and> m' u \<le> 1)) \<and>
           (\<forall>u \<in> set vs. brush_test_sq bc (co ss u) \<noteq> None \<longrightarrow> 0 \<le> m' u \<and> m' u \<le> 1)"
  using assms
proof (induction vs arbitrary: ss m)
  case Nil
  then show ?case by simp
next
  case (Cons v vs)
  let ?s1 = "snd (smooth_vertex bc True b ss v)"
  from smooth_vertex_mask [OF Cons.prems, of bc b v] obtain m1 where
    r1: "smooth_vertex bc True b ss v = (None, ?s1)" and
    co1: "co ?s1 = co ss" and
    vm1: "vmask ?s1 = Some m1" and
    oth1: "\<forall>u. u \<noteq> v \<longrightarrow> m1 u = m u" and
    own1: "m1 v = m v \<or> (0 \<le> m1 v \<and> m1 v \<le> 1)" and
    tst1: "brush_test_sq bc (co ss v) \<noteq> None \<longrightarrow> 0 \<le> m1 v \<and> m1 v \<le> 1"
    by blast
  have step: "iter_until_error (smooth_vertex bc True b) (v # vs) ss =
              iter_until_error (smooth_vertex bc True b) vs ?s1"
    by (subst iter_until_error.simps, subst r1) simp
  from Cons.IH [OF vm1] obtain m' where
    e': "fst (iter_until_error (smooth_vertex bc True b) vs ?s1) = None" and
    co': "co (snd (iter_until_error (smooth_vertex bc True b) vs ?s1)) = co ?s1" and
    vm': "vmask (snd (iter_until_error (smooth_vertex bc True b) vs ?s1)) = Some m'" and
    all': "\<forall>u. m' u = m1 u \<or> (0 \<le> m' u \<and> m' u \<le> 1)" and
    tst': "\<forall>u \<in> set vs. brush_test_sq bc (co ?s1 u) \<noteq> None \<longrightarrow> 0 \<le> m' u \<and> m' u \<le> 1"
    by blast
  have a: "\<forall>u. m' u = m u \<or> (0 \<le> m' u \<and> m' u \<le> 1)"
  proof
    fix u
    show "m' u = m u \<or> (0 \<le> m' u \<and> m' u \<le> 1)"
      using all' [rule_format, of u] oth1 [rule_format, of u] own1 by (cases "u = v") auto
  qed
  have t: "\<forall>u \<in> set (v # vs). brush_test_sq bc (co ss u) \<noteq> None \<longrightarrow> 0 \<le> m' u \<and> m' u \<le> 1"
  proof
    fix u
    assume u: "u \<in> set (v # vs)"
    show "brush_test_sq bc (co ss u) \<noteq> None \<longrightarrow> 0 \<le> m' u \<and> m' u \<le> 1"
    proof (cases "u = v")
      case True
      with tst1 all' [rule_format, of v] show ?thesis by auto
    next
      case False
      with u tst' co1 show ?thesis by auto
    qed
  qed
  show ?case
    unfolding step using e' co' co1 vm' a t by (intro exI [of _ m']) simp
qed

lemma mask_kernel_inv:
  assumes "vmask ss = Some m"
  shows "\<exists>m'. fst (do_smooth_brush_task_cb_ex bc True strength ss node) = None \<and>
           vmask (snd (do_smooth_brush_task_cb_ex bc True strength ss node)) = Some m' \<and>
           (\<forall>v \<in> set node. brush_test_sq bc (co ss v) \<noteq> None \<longrightarrow> 0 \<le> m' v \<and> m' v \<le> 1) \<and>
           (\<forall>v. m' v = m v \<or> (0 \<le> m' v \<and> m' v \<le> 1))"
proof -
  from mask_loop_inv [OF assms, of bc "CLAMP strength 0 1" node] obtain m' where
    e: "fst (do_smooth_brush_task_cb_ex bc True strength ss node) = None" and
    vm: "vmask (snd (do_smooth_brush_task_cb_ex bc True strength ss node)) = Some m'" and
    a: "\<forall>u. m' u = m u \<or> (0 \<le> m' u \<and> m' u \<le> 1)" and
    t: "\<forall>u \<in> set node. brush_test_sq bc (co ss u) \<noteq> None \<longrightarrow> 0 \<le> m' u \<and> m' u \<le> 1"
    unfolding do_smooth_brush_task_cb_ex_def Let_def by blast
  from e vm a t show ?thesis by blast
qed

lemma mask_kernel_unit:
  assumes "masks_in_unit ss"
  shows "masks_in_unit (snd (do_smooth_brush_task_cb_ex bc True strength ss node))"
proof -
  from assms obtain m where m: "vmask ss = Some m" and u: "\<forall>v. 0 \<le> m v \<and> m v \<le> 1"
    unfolding masks_in_unit_def by blast
  from mask_kernel_inv [OF m, of bc strength node] obtain m' where
    vm: "vmask (snd (do_smooth_brush_task_cb_ex bc True strength ss node)) = Some m'" and
    a: "\<forall>v. m' v = m v \<or> (0 \<le> m' v \<and> m' v \<le> 1)"
    by blast
  have "\<forall>v. 0 \<le> m' v \<and> m' v \<le> 1"
  proof
    fix v
    from a [rule_format, of v] u [rule_format, of v] show "0 \<le> m' v \<and> m' v \<le> 1" by auto
  qed
  with vm show ?thesis unfolding masks_in_unit_def by blast
qed

lemma mask_smooth_unit:
  assumes "masks_in_unit ss"
  shows "masks_in_unit (snd (SCULPT_smooth bc ss nodes bstrength True))"
proof (cases "pbvh_type ss = PBVH_FACES \<and> \<not> pmap ss")
  case True
  with assms show ?thesis by (simp add: SCULPT_smooth_def)
next
  case False
  have node: "masks_in_unit s'"
    if "masks_in_unit s" and "do_smooth_brush_task_cb_ex bc True strength s n = (e, s')"
    for strength s n e s'
    using mask_kernel_unit [OF that(1), of bc strength n] that(2) by simp
  have pass: "masks_in_unit s'"
    if "masks_in_unit s" and
      "iter_until_error (do_smooth_brush_task_cb_ex bc True strength) nodes s = (e, s')"
    for s strength e s'
    using iter_until_error_invariant [of masks_in_unit
        "do_smooth_brush_task_cb_ex bc True strength" s nodes, OF node that(1)] that(2)
    by simp
  have "masks_in_unit (snd (iter_until_error
          (\<lambda>ss' strength. iter_until_error (do_smooth_brush_task_cb_ex bc True strength) nodes ss')
          (smooth_strengths bstrength) ss))"
    by (rule iter_until_error_invariant [of masks_in_unit, OF pass assms])
  with False show ?thesis by (auto simp: SCULPT_smooth_def)
qed

text \<open>
  C10. In mask mode, on a session with a mask layer, the kernel reports no error; every
  mask value it writes is clamped to \<open>[0, 1]\<close>: after the kernel the mask of every vertex
  of the node that is under the brush lies in \<open>[0, 1]\<close>, and every other mask is as
  before. Hence the kernel, and with it every pass and the whole call of
  \<^verbatim>\<open>SCULPT_smooth\<close>, preserves that all masks lie in \<open>[0, 1]\<close>.
\<close>

theorem mask_clamped:
  assumes "vmask ss = Some m"
  shows "(\<exists>m'. fst (do_smooth_brush_task_cb_ex bc True strength ss node) = None \<and>
            vmask (snd (do_smooth_brush_task_cb_ex bc True strength ss node)) = Some m' \<and>
            (\<forall>v \<in> set node. brush_test_sq bc (co ss v) \<noteq> None \<longrightarrow> 0 \<le> m' v \<and> m' v \<le> 1) \<and>
            (\<forall>v. m' v = m v \<or> (0 \<le> m' v \<and> m' v \<le> 1))) \<and>
         (masks_in_unit ss \<longrightarrow>
            masks_in_unit (snd (do_smooth_brush_task_cb_ex bc True strength ss node)) \<and>
            masks_in_unit (snd (SCULPT_smooth bc ss nodes bstrength True)))"
  using mask_kernel_inv [OF assms, of bc strength node]
    mask_kernel_unit [of ss bc strength node] mask_smooth_unit [of ss bc nodes bstrength]
  by blast

theorem mask_clamped_witness:
  "vmask overmasked_session = Some (\<lambda>i. 2) \<and>
   brush_test_sq ball_brush (co overmasked_session 1) \<noteq> None \<and>
   brush_test_sq ball_brush (co overmasked_session 4) = None \<and>
   0 \<le> SCULPT_vertex_mask_get
         (snd (do_smooth_brush_task_cb_ex ball_brush True 1 overmasked_session [1, 4])) 1 \<and>
   SCULPT_vertex_mask_get
     (snd (do_smooth_brush_task_cb_ex ball_brush True 1 overmasked_session [1, 4])) 1 \<le> 1 \<and>
   masks_in_unit star_session \<and>
   masks_in_unit (snd (SCULPT_smooth ball_brush star_session [[0, 1], [3]] (3 / 5) True))"
proof -
  have v: "vmask overmasked_session = Some (\<lambda>i. 2)"
    by (simp add: overmasked_session_def)
  have t1: "brush_test_sq ball_brush (co overmasked_session 1) \<noteq> None"
    by (simp add: overmasked_session_def star_session_def ball_brush_def)
  have t4: "brush_test_sq ball_brush (co overmasked_session 4) = None"
    by (simp add: overmasked_session_def star_session_def ball_brush_def)
  have v2: "vmask star_session = Some (\<lambda>i. 1 / 2)"
    by (simp add: star_session_def)
  have u: "masks_in_unit star_session"
    by (simp add: masks_in_unit_def v2)
  from mask_clamped [OF v, of ball_brush 1 "[1, 4]" "[]" 0]
    mask_clamped [OF v2, of ball_brush 1 "[]" "[[0, 1], [3]]" "3 / 5"] t1 v t4 u
  show ?thesis
    by (auto simp: SCULPT_vertex_mask_get_def)
qed

section \<open>Properties of surface smoothing\<close>

text \<open>The neighbour loop of the displacement step sums the buffer over the neighbours.\<close>

lemma displace_loop_sum:
  "displace_loop ld ns acc = (add_v3_v3 (fst acc) (sum_v3 (map ld ns)), snd acc + int (length ns))"
proof (induction ns arbitrary: acc)
  case Nil
  obtain b0 b1 b2 t where acc: "acc = ((b0, b1, b2), t)"
    by (cases acc, cases "fst acc" rule: prod_cases3) auto
  show ?case by (simp add: acc sum_v3_def)
next
  case (Cons n ns)
  obtain b0 b1 b2 t where acc: "acc = ((b0, b1, b2), t)"
    by (cases acc, cases "fst acc" rule: prod_cases3) auto
  obtain l0 l1 l2 where l: "ld n = (l0, l1, l2)"
    by (cases "ld n" rule: prod_cases3)
  show ?case
    by (simp add: acc Cons.IH l sum_v3_def)
qed

text \<open>
  C7. At a vertex with \<open>N \<ge> 1\<close> neighbours the displacement-damping step returns the
  position minus \<open>\<beta> * laplacian_disp v + ((1 - \<beta>) / N) * (\<Sum> of laplacian_disp over
  the neighbours)\<close>, scaled by the fade clamped to \<open>[0, 1]\<close>.
\<close>

theorem displace_step_formula:
  assumes "neighbors ss v \<noteq> []"
  shows "SCULPT_surface_smooth_displace_step ss vco laplacian_disp v beta fade =
           sub_v3_v3 vco
             (mul_v3_fl
                (add_v3_v3v3 (mul_v3_v3fl (laplacian_disp v) beta)
                   (mul_v3_v3fl (sum_v3 (map laplacian_disp (neighbors ss v)))
                      ((1 - beta) / real (length (neighbors ss v)))))
                (clamp_f fade 0 1)) \<and>
         0 \<le> clamp_f fade 0 1 \<and> clamp_f fade 0 1 \<le> 1"
proof -
  obtain s0 s1 s2 where s: "sum_v3 (map laplacian_disp (neighbors ss v)) = (s0, s1, s2)"
    by (cases "sum_v3 (map laplacian_disp (neighbors ss v))" rule: prod_cases3)
  obtain l0 l1 l2 where l: "laplacian_disp v = (l0, l1, l2)"
    by (cases "laplacian_disp v" rule: prod_cases3)
  obtain c0 c1 c2 where c: "vco = (c0, c1, c2)"
    by (cases vco rule: prod_cases3)
  from assms have len: "0 < length (neighbors ss v)" by simp
  have "SCULPT_surface_smooth_displace_step ss vco laplacian_disp v beta fade =
           sub_v3_v3 vco
             (mul_v3_fl
                (add_v3_v3v3 (mul_v3_v3fl (laplacian_disp v) beta)
                   (mul_v3_v3fl (sum_v3 (map laplacian_disp (neighbors ss v)))
                      ((1 - beta) / real (length (neighbors ss v)))))
                (clamp_f fade 0 1))"
    using len
    by (simp add: SCULPT_surface_smooth_displace_step_def displace_loop_sum s l c Let_def
        add.commute)
  moreover have "0 \<le> clamp_f fade 0 1 \<and> clamp_f fade 0 1 \<le> 1"
    by (simp add: clamp_f_def)
  ultimately show ?thesis by simp
qed

theorem displace_step_formula_witness:
  "neighbors star_session 3 \<noteq> [] \<and>
   SCULPT_surface_smooth_displace_step star_session (3, 6, 1) ramp_disp 3 (1 / 2) 2 =
     (3 - (3 / 2 + 7 / 6), 6, 1 - 1)"
proof -
  have n: "neighbors star_session 3 = [1, 2, 4]"
    by (simp add: star_session_def)
  from displace_step_formula [of star_session 3 "(3, 6, 1)" ramp_disp "1 / 2" 2]
  show ?thesis
    by (simp add: n ramp_disp_def sum_v3_def clamp_f_def)
qed

text \<open>With \<open>\<alpha> = 1\<close> the target \<open>d\<close> is the original position.\<close>

lemma laplacian_target_one: "laplacian_target vco origco 1 = origco"
  by (cases vco rule: prod_cases3, cases origco rule: prod_cases3) (simp add: laplacian_target_def)

text \<open>
  C6 as stated fails: with \<open>\<alpha> = 1\<close> the Laplacian pass still moves a vertex. Vertex 3
  of \<open>star_session\<close>, at \<open>(3, 6, 1)\<close> with its original position the same, is moved to
  the average \<open>(7 / 3, 14 / 3, 1)\<close> of its neighbours (the fade is 1).
\<close>

theorem alpha_one_counterexample:
  "co star_session 3 = (3, 6, 1) \<and>
   co (fst (SCULPT_do_surface_smooth_brush_laplacian_task_cb_ex ball_brush 2 1 (co star_session)
              (star_session, (\<lambda>i. (0, 0, 0))) [3])) 3 = (7 / 3, 14 / 3, 1) \<and>
   co (fst (SCULPT_do_surface_smooth_brush_laplacian_task_cb_ex ball_brush 2 1 (co star_session)
              (star_session, (\<lambda>i. (0, 0, 0))) [3])) 3 \<noteq> co star_session 3"
proof -
  have "co (fst (SCULPT_do_surface_smooth_brush_laplacian_task_cb_ex ball_brush 2 1 (co star_session)
              (star_session, (\<lambda>i. (0, 0, 0))) [3])) 3 = (7 / 3, 14 / 3, 1)"
    by (simp add: SCULPT_do_surface_smooth_brush_laplacian_task_cb_ex_def
        surface_laplacian_vertex_def SCULPT_surface_smooth_laplacian_step_def
        SCULPT_neighbor_coords_average_def SCULPT_vertex_co_get_def tag_update_def
        star_session_def ball_brush_def clamp_f_def Let_def)
  then show ?thesis by (simp add: star_session_def)
qed

text \<open>
  C6, amended. With \<open>\<alpha> = 1\<close> the target \<open>d\<close> of the predict pass is exactly the
  vertex's original position, so the pass stores
  \<open>laplacian_disp v = laplacian_average v - orig_co v\<close>. The displacement it applies is
  \<open>laplacian_average v - co v\<close> scaled by the fade clamped to \<open>[0, 1]\<close>, for every \<open>\<alpha>\<close>:
  it does not depend on \<open>\<alpha>\<close>.
\<close>

theorem alpha_one_target:
  "laplacian_target vco origco 1 = origco \<and>
   SCULPT_surface_smooth_laplacian_step ss vco laplacian_disp v origco alpha =
     (sub_v3_v3v3 (SCULPT_neighbor_coords_average ss v) vco,
      laplacian_disp(v := sub_v3_v3v3 (SCULPT_neighbor_coords_average ss v)
                            (laplacian_target vco origco alpha))) \<and>
   SCULPT_surface_smooth_laplacian_step ss vco laplacian_disp v origco 1 =
     (sub_v3_v3v3 (SCULPT_neighbor_coords_average ss v) vco,
      laplacian_disp(v := sub_v3_v3v3 (SCULPT_neighbor_coords_average ss v) origco)) \<and>
   (brush_test_sq bc (co ss v) = Some dist_sq \<longrightarrow>
      co (fst (surface_laplacian_vertex bc cache_bstrength 1 orig_co (ss, laplacian_disp) v)) v =
        madd_v3_v3fl (co ss v)
          (sub_v3_v3v3 (SCULPT_neighbor_coords_average ss v) (co ss v))
          (clamp_f (cache_bstrength *
                      brush_strength_factor bc ss (co ss v) (sqrt dist_sq)
                        (case vmask ss of None \<Rightarrow> 0 | Some m \<Rightarrow> m v) v) 0 1) \<and>
      snd (surface_laplacian_vertex bc cache_bstrength 1 orig_co (ss, laplacian_disp) v) v =
        sub_v3_v3v3 (SCULPT_neighbor_coords_average ss v) (orig_co v))"
proof -
  have step: "SCULPT_surface_smooth_laplacian_step ss vco laplacian_disp v origco a =
     (sub_v3_v3v3 (SCULPT_neighbor_coords_average ss v) vco,
      laplacian_disp(v := sub_v3_v3v3 (SCULPT_neighbor_coords_average ss v)
                            (laplacian_target vco origco a)))" for vco origco a
    by (simp add: SCULPT_surface_smooth_laplacian_step_def laplacian_target_def Let_def)
  have vertex: "brush_test_sq bc (co ss v) = Some dist_sq \<longrightarrow>
      co (fst (surface_laplacian_vertex bc cache_bstrength 1 orig_co (ss, laplacian_disp) v)) v =
        madd_v3_v3fl (co ss v)
          (sub_v3_v3v3 (SCULPT_neighbor_coords_average ss v) (co ss v))
          (clamp_f (cache_bstrength *
                      brush_strength_factor bc ss (co ss v) (sqrt dist_sq)
                        (case vmask ss of None \<Rightarrow> 0 | Some m \<Rightarrow> m v) v) 0 1) \<and>
      snd (surface_laplacian_vertex bc cache_bstrength 1 orig_co (ss, laplacian_disp) v) v =
        sub_v3_v3v3 (SCULPT_neighbor_coords_average ss v) (orig_co v)"
    by (simp add: surface_laplacian_vertex_def step laplacian_target_one tag_update_def Let_def)
  from step [of vco origco alpha] step [of vco origco 1] vertex show ?thesis
    by (simp add: laplacian_target_one)
qed

theorem alpha_one_target_witness:
  "brush_test_sq ball_brush (co star_session 3) = Some 46 \<and>
   co (fst (surface_laplacian_vertex ball_brush 2 1 (co star_session)
              (star_session, (\<lambda>i. (0, 0, 0))) 3)) 3 = (7 / 3, 14 / 3, 1) \<and>
   snd (surface_laplacian_vertex ball_brush 2 1 (co star_session)
              (star_session, (\<lambda>i. (0, 0, 0))) 3) 3 = (7 / 3 - 3, 14 / 3 - 6, 0)"
proof -
  have t: "brush_test_sq ball_brush (co star_session 3) = Some 46"
    by (simp add: star_session_def ball_brush_def)
  have a: "SCULPT_neighbor_coords_average star_session 3 = (7 / 3, 14 / 3, 1)"
    by (simp add: SCULPT_neighbor_coords_average_def SCULPT_vertex_co_get_def star_session_def)
  have c: "co star_session 3 = (3, 6, 1)"
    by (simp add: star_session_def)
  have f: "brush_strength_factor ball_brush = (\<lambda>ss c len m i. 1 / 2)"
    by (simp add: ball_brush_def)
  from alpha_one_target [of "(0, 0, 0)" "(0, 0, 0)" star_session "\<lambda>i. (0, 0, 0)" 3 1 ball_brush 46 2
      "co star_session"] t
  show ?thesis
    by (simp add: a c f clamp_f_def)
qed

end
